theory Spec2Isabelle
  imports Main "HOL-Library.Word"
begin

section \<open>The APK template replacement server (server.js)\<close>

text \<open>
  The server keeps an uploaded APK template (a zip archive), replaces one entry of it by
  HTML sent with a request, writes the result into the directory \<^verbatim>\<open>generated\<close>,
  serves it from there and removes it after \<^verbatim>\<open>CLEANUP_SECONDS\<close>. Every handler is
  modelled as a function of the request and of the server's state, returning the response
  and the new state. What the platform decides (the archive library adm-zip, the order of a
  directory listing, UTF-8) is a parameter of the model, and so is every reading of the
  clock.

  JavaScript strings are modelled as \<^typ>\<open>string\<close>: a list of code units, here
  the code units below 256. Buffers are lists of bytes.
\<close>

type_synonym buffer = "8 word list"

subsection \<open>String operations of JavaScript used by the server\<close>

text \<open>\<^verbatim>\<open>a || b\<close> on an optional string: an absent or empty \<open>a\<close> is falsy.\<close>

definition js_or :: "string option \<Rightarrow> string \<Rightarrow> string" where
  "js_or a b = (case a of None \<Rightarrow> b | Some s \<Rightarrow> if s = [] then b else s)"

text \<open>\<^verbatim>\<open>s.substring(0, n)\<close>.\<close>

definition substring0 :: "string \<Rightarrow> nat \<Rightarrow> string" where
  "substring0 s n = take n s"

text \<open>\<^verbatim>\<open>s.toLowerCase()\<close>, on the code units below 256: the letters A-Z, and the
  capital letters of Latin-1 (0xC0 to 0xDE, without the multiplication sign 0xD7).\<close>

definition lower_char :: "char \<Rightarrow> char" where
  "lower_char c =
     (let n = (of_char c :: nat)
      in if (65 \<le> n \<and> n \<le> 90) \<or> (192 \<le> n \<and> n \<le> 222 \<and> n \<noteq> 215)
         then char_of (n + 32) else c)"

definition toLowerCase :: "string \<Rightarrow> string" where
  "toLowerCase s = map lower_char s"

text \<open>\<^verbatim>\<open>s.startsWith(m)\<close>, \<^verbatim>\<open>s.endsWith(m)\<close> and \<^verbatim>\<open>s.includes(m)\<close>.\<close>

fun startsWith :: "string \<Rightarrow> string \<Rightarrow> bool" where
  "startsWith s [] = True"
| "startsWith [] (m # ms) = False"
| "startsWith (c # cs) (m # ms) = (c = m \<and> startsWith cs ms)"

definition endsWith :: "string \<Rightarrow> string \<Rightarrow> bool" where
  "endsWith s m = startsWith (rev s) (rev m)"

fun includes_str :: "string \<Rightarrow> string \<Rightarrow> bool" where
  "includes_str [] m = startsWith [] m"
| "includes_str (c # cs) m = (startsWith (c # cs) m \<or> includes_str cs m)"

text \<open>The class \<^verbatim>\<open>\w\<close> of a JavaScript regular expression (without the unicode flag):
  letters, digits and the underscore.\<close>

definition word_char :: "char \<Rightarrow> bool" where
  "word_char c =
     (let n = (of_char c :: nat)
      in (48 \<le> n \<and> n \<le> 57) \<or> (65 \<le> n \<and> n \<le> 90) \<or> n = 95 \<or> (97 \<le> n \<and> n \<le> 122))"

text \<open>\<^verbatim>\<open>s.replace(/[^\w\-]/g, '-')\<close>: every character outside the class
  \<^verbatim>\<open>[\w\-]\<close> becomes a hyphen.\<close>

definition safe_char :: "char \<Rightarrow> bool" where
  "safe_char c = (word_char c \<or> c = CHR ''-'')"

definition replace_unsafe :: "string \<Rightarrow> string" where
  "replace_unsafe s = map (\<lambda>c. if \<not> safe_char c then CHR ''-'' else c) s"

text \<open>A number in a template literal: its decimal digits.\<close>

definition digit_char :: "nat \<Rightarrow> char" where
  "digit_char d = ''0123456789'' ! d"

fun decimal :: "nat \<Rightarrow> string" where
  "decimal n = (if n < 10 then [digit_char n] else decimal (n div 10) @ [digit_char (n mod 10)])"

declare decimal.simps [simp del]

subsection \<open>isLikelyHtml\<close>

definition isLikelyHtml :: "string \<Rightarrow> bool" where
  "isLikelyHtml s =
     (if s = [] then False
      else let lowered = toLowerCase s
           in if includes_str lowered ''<!doctype html'' \<or> includes_str lowered ''<html''
                 \<or> includes_str lowered ''<body''
              then True else False)"

text \<open>The specification's wording, stated without the operations of the code: two
  characters are the same up to case when they are equal or are the same letter of A-Z in
  capital and in small; a text contains a marker, whatever the case of its letters, when
  some stretch of it is the marker character by character up to case.\<close>

definition same_letter :: "char \<Rightarrow> char \<Rightarrow> bool" where
  "same_letter c d =
     (c = d
      \<or> (65 \<le> (of_char c :: nat) \<and> (of_char c :: nat) \<le> 90 \<and> (of_char d :: nat) = of_char c + 32)
      \<or> (65 \<le> (of_char d :: nat) \<and> (of_char d :: nat) \<le> 90 \<and> (of_char c :: nat) = of_char d + 32))"

text \<open>A character below 128 that is no capital letter: the lower case of a text has
  it exactly where the text has it or its capital.\<close>

definition plain_char :: "char \<Rightarrow> bool" where
  "plain_char k = ((of_char k :: nat) < 128 \<and> \<not> (65 \<le> (of_char k :: nat) \<and> (of_char k :: nat) \<le> 90))"

definition contains_ci :: "string \<Rightarrow> string \<Rightarrow> bool" where
  "contains_ci s m = (\<exists>u v w. s = u @ v @ w \<and> list_all2 same_letter v m)"

subsection \<open>Files\<close>

text \<open>A directory holds named files, each name once. The order of the list is the
  order of storage; it is not the order of a listing, which the platform decides (see
  \<open>listing\<close> below).\<close>

type_synonym dir = "(string \<times> buffer) list"

fun writeFileSync :: "dir \<Rightarrow> string \<Rightarrow> buffer \<Rightarrow> dir" where
  "writeFileSync [] n b = [(n, b)]"
| "writeFileSync ((m, c) # r) n b =
     (if m = n then (n, b) # r else (m, c) # writeFileSync r n b)"

text \<open>The content of a file, or \<open>None\<close> when \<^verbatim>\<open>fs.existsSync\<close> is false.\<close>

definition readFile :: "dir \<Rightarrow> string \<Rightarrow> buffer option" where
  "readFile d n = map_of d n"

text \<open>\<^verbatim>\<open>try { fs.unlinkSync(f) } catch(e) { }\<close>: the file is removed when it is there;
  the error of a missing file is ignored.\<close>

definition unlink_ignore :: "dir \<Rightarrow> string \<Rightarrow> dir" where
  "unlink_ignore d n = filter (\<lambda>(m, c). m \<noteq> n) d"

subsection \<open>The platform\<close>

text \<open>An opened archive is modelled by its table of entries: a name and the content
  that extraction gives, for each. The headers of the entries (times, attributes, method
  of compression) are not modelled.\<close>

type_synonym zip = "(string \<times> buffer) list"

text \<open>The configuration read at start, and what the server leaves to the platform.
  The library adm-zip is not part of the repository:
  \<^item> \<open>readZip\<close> is the constructor of \<^verbatim>\<open>AdmZip\<close> on the bytes of a file; it throws
    on bytes that are no archive (\<open>Inl\<close> of the error as \<^verbatim>\<open>String(err)\<close> prints it);
  \<^item> \<open>toBuffer\<close> is the bytes that \<^verbatim>\<open>writeZip\<close> writes;
  \<^item> \<open>entry_key\<close> is the name under which the library looks a path up (it normalises
    the path);
  \<^item> \<open>addFile\<close> is the library's \<^verbatim>\<open>addFile\<close>: the name it gives the new entry, and
    what it does with a name that ends in a slash, are its own.

  \<open>listing\<close> is the order in which \<^verbatim>\<open>fs.readdirSync\<close> gives the names of a
  directory. \<open>utf8_decode\<close> and \<open>utf8_encode\<close> are \<^verbatim>\<open>buffer.toString('utf8')\<close>
  and \<^verbatim>\<open>Buffer.from(s, 'utf8')\<close>. \<^verbatim>\<open>CLEANUP_SECONDS\<close> is the integer that
  \<^verbatim>\<open>parseInt\<close> read. Errors of the disk (a write that fails) are not modelled.\<close>

record env =
  ADMIN_PASS :: string
  CLEANUP_SECONDS :: int
  readZip :: "buffer \<Rightarrow> string + zip"
  toBuffer :: "zip \<Rightarrow> buffer"
  entry_key :: "string \<Rightarrow> string"
  addFile :: "zip \<Rightarrow> string \<Rightarrow> buffer \<Rightarrow> zip"
  listing :: "string list \<Rightarrow> string list"
  utf8_decode :: "buffer \<Rightarrow> string"
  utf8_encode :: "string \<Rightarrow> buffer"

definition readdirSync :: "env \<Rightarrow> dir \<Rightarrow> string list" where
  "readdirSync e d = listing e (map fst d)"

text \<open>\<^verbatim>\<open>zip.getEntry(p)\<close>: the entry found under the key of the path, if any.\<close>

definition getEntry :: "env \<Rightarrow> zip \<Rightarrow> string \<Rightarrow> buffer option" where
  "getEntry e z p = map_of z (entry_key e p)"

text \<open>\<^verbatim>\<open>zip.updateFile(p, x)\<close>: the entry that \<^verbatim>\<open>getEntry\<close> finds gets the content
  \<open>x\<close>; nothing happens when there is none.\<close>

fun setData :: "zip \<Rightarrow> string \<Rightarrow> buffer \<Rightarrow> zip" where
  "setData [] n x = []"
| "setData ((m, d) # r) n x = (if m = n then (m, x) # r else (m, d) # setData r n x)"

definition updateFile :: "env \<Rightarrow> zip \<Rightarrow> string \<Rightarrow> buffer \<Rightarrow> zip" where
  "updateFile e z p x =
     (case getEntry e z p of None \<Rightarrow> z | Some item \<Rightarrow> setData z (entry_key e p) x)"


subsection \<open>State\<close>

text \<open>The entries of \<^verbatim>\<open>DB.requests\<close>: the record of a generated APK, or of an error.\<close>

datatype request_rec =
  Generated (rec_id: string) (rec_username: string) (rec_projectName: string)
    (rec_replacePath: string) (rec_filename: string) (rec_createdAt: nat)
| Failed (fail_id: nat) (fail_error: string)

record db =
  stats_success :: nat
  stats_fail :: nat
  requests :: "request_rec list"

text \<open>The state: the object \<^verbatim>\<open>DB\<close> in memory, the file \<^verbatim>\<open>db.json\<close> as
  \<^verbatim>\<open>saveDB\<close> last wrote it, the directories \<^verbatim>\<open>templates\<close> and \<^verbatim>\<open>generated\<close>,
  and the pending timers, each with the time in milliseconds at which it is due and the
  file it unlinks.\<close>

record server =
  DB :: db
  db_file :: db
  templates_dir :: dir
  generated_dir :: dir
  timers :: "(nat \<times> string) list"

definition saveDB :: "server \<Rightarrow> server" where
  "saveDB st = st\<lparr>db_file := DB st\<rparr>"

datatype payload =
  NoPayload
| Filename string
| Templates "string list"
| DownloadUrl string
| ErrorString string
| DbDump db

datatype response = Json (status: nat) (ok: bool) (message: "string option") (extra: payload)

subsection \<open>The admin handlers\<close>

record admin_req =
  header_pass :: "string option"
  query_pass :: "string option"
  template_file :: "buffer option"

text \<open>\<^verbatim>\<open>req.headers['x-admin-pass'] || req.query.pass || ''\<close>.\<close>

definition admin_pass :: "admin_req \<Rightarrow> string" where
  "admin_pass req = js_or (header_pass req) (js_or (query_pass req) [])"

definition unauthorized :: response where
  "unauthorized = Json 401 False (Some ''unauthorized'') NoPayload"

text \<open>\<^verbatim>\<open>POST /api/admin/upload-template\<close>, at the time \<open>now\<close> of \<^verbatim>\<open>Date.now()\<close>.\<close>

definition upload_template :: "env \<Rightarrow> nat \<Rightarrow> admin_req \<Rightarrow> server \<Rightarrow> response \<times> server" where
  "upload_template e now req st =
     (if admin_pass req \<noteq> ADMIN_PASS e then (unauthorized, st)
      else case template_file req of
        None \<Rightarrow> (Json 400 False (Some ''no file uploaded'') NoPayload, st)
      | Some buf \<Rightarrow>
          (let name = ''template_'' @ decimal now @ ''.apk'';
               d1 = writeFileSync (templates_dir st) name buf;
               d2 = writeFileSync d1 ''current_template.apk'' buf
           in (Json 200 True (Some ''template uploaded'') (Filename name),
               st\<lparr>templates_dir := d2\<rparr>)))"

text \<open>\<^verbatim>\<open>GET /api/admin/templates\<close>.\<close>

definition list_templates :: "env \<Rightarrow> admin_req \<Rightarrow> server \<Rightarrow> response" where
  "list_templates e req st =
     (if admin_pass req \<noteq> ADMIN_PASS e then unauthorized
      else let files = filter (\<lambda>f. endsWith f ''.apk'') (readdirSync e (templates_dir st))
           in Json 200 True None (Templates files))"

text \<open>\<^verbatim>\<open>GET /api/admin/db\<close>: here the query parameter comes first.\<close>

definition view_db :: "env \<Rightarrow> admin_req \<Rightarrow> server \<Rightarrow> response" where
  "view_db e req st =
     (if js_or (query_pass req) (js_or (header_pass req) []) \<noteq> ADMIN_PASS e then unauthorized
      else Json 200 True None (DbDump (DB st)))"

subsection \<open>POST /api/create-apk\<close>

text \<open>The fields of the form, each a string or absent, and the uploaded file with its
  \<^verbatim>\<open>originalname\<close> and its content.\<close>

record create_req =
  body_username :: "string option"
  body_projectName :: "string option"
  body_replacePath :: "string option"
  body_text :: "string option"
  req_file :: "(string \<times> buffer) option"

text \<open>The readings of \<^verbatim>\<open>Date.now()\<close> in one call of the handler, in milliseconds: for
  the name of the output file, for the id of the record, for its \<^verbatim>\<open>createdAt\<close>, at the
  call of \<^verbatim>\<open>setTimeout\<close> (the start of the timer), and in the \<^verbatim>\<open>catch\<close> block.\<close>

record clock =
  at_name :: nat
  at_id :: nat
  at_created :: nat
  at_timer :: nat
  at_catch :: nat

definition label_username :: "create_req \<Rightarrow> string" where
  "label_username req = substring0 (js_or (body_username req) ''anon'') 64"

definition label_projectName :: "create_req \<Rightarrow> string" where
  "label_projectName req =
     (let projectNameRaw = js_or (body_projectName req) ''rapz-app''
      in js_or (Some (substring0 (replace_unsafe projectNameRaw) 50)) ''rapz-app'')"

definition target_replacePath :: "create_req \<Rightarrow> string" where
  "target_replacePath req = js_or (body_replacePath req) ''assets/www/index.html''"

definition unsupported_file :: response where
  "unsupported_file = Json 400 False
     (Some ''Uploaded file not supported for direct replacement. Upload .html or use paste.'')
     NoPayload"

definition no_html :: response where
  "no_html = Json 400 False (Some ''No HTML provided. Paste code or upload .html file.'') NoPayload"

text \<open>The HTML of the request: from the uploaded file when there is one, else from the
  pasted text; \<open>Inl\<close> is the response of an early return.\<close>

definition html_input :: "env \<Rightarrow> create_req \<Rightarrow> response + string" where
  "html_input e req =
     (case req_file req of
        Some (originalname, buf) \<Rightarrow>
          (let fname = toLowerCase originalname
           in if endsWith fname ''.html'' \<or> endsWith fname ''.htm''
              then Inr (utf8_decode e buf)
              else Inl unsupported_file)
      | None \<Rightarrow>
          (case body_text req of
             Some t \<Rightarrow> if t \<noteq> [] then Inr t else Inl no_html
           | None \<Rightarrow> Inl no_html))"

text \<open>The replacement in the opened archive: \<^verbatim>\<open>updateFile\<close> when \<^verbatim>\<open>getEntry\<close>
  finds an entry, \<^verbatim>\<open>addFile\<close> when it finds none.\<close>

definition rewrite_entries :: "env \<Rightarrow> zip \<Rightarrow> string \<Rightarrow> buffer \<Rightarrow> zip" where
  "rewrite_entries e z p x =
     (case getEntry e z p of
        Some entry \<Rightarrow> updateFile e z p x
      | None \<Rightarrow> addFile e z p x)"

text \<open>From the bytes of the template to the bytes written: open, replace, write.\<close>

definition rewrite :: "env \<Rightarrow> buffer \<Rightarrow> string \<Rightarrow> buffer \<Rightarrow> string + buffer" where
  "rewrite e c p x =
     (case readZip e c of
        Inl err \<Rightarrow> Inl err
      | Inr z \<Rightarrow> Inr (toBuffer e (rewrite_entries e z p x)))"

text \<open>The delay that \<^verbatim>\<open>setTimeout\<close> uses: a delay below 1 or above \<open>2\<^sup>3\<^sup>1 - 1\<close>
  milliseconds is set to 1.\<close>

definition timeout_delay :: "int \<Rightarrow> nat" where
  "timeout_delay ms = (if ms < 1 \<or> 2147483647 < ms then 1 else nat ms)"

text \<open>The \<^verbatim>\<open>catch\<close> block.\<close>

definition catch_block :: "clock \<Rightarrow> string \<Rightarrow> server \<Rightarrow> response \<times> server" where
  "catch_block clk err st =
     (Json 500 False (Some ''server error'') (ErrorString err),
      saveDB (st\<lparr>DB := (DB st)\<lparr>stats_fail := stats_fail (DB st) + 1,
                                requests := Failed (at_catch clk) err # requests (DB st)\<rparr>\<rparr>))"

definition not_html :: response where
  "not_html = Json 400 False (Some ''Provided content does not look like valid HTML.'') NoPayload"

definition no_template :: response where
  "no_template = Json 500 False
     (Some ''No APK template found on server. Upload via admin panel first.'') NoPayload"

text \<open>The name of the output file, made from the project name and a reading of the
  clock.\<close>

definition out_name :: "create_req \<Rightarrow> nat \<Rightarrow> string" where
  "out_name req t = label_projectName req @ ''_'' @ decimal t @ ''.apk''"

text \<open>The handler, with the readings \<open>clk\<close> of the clock and with \<open>rnd\<close> the six
  characters taken from \<^verbatim>\<open>Math.random()\<close>.\<close>

definition create_apk :: "env \<Rightarrow> clock \<Rightarrow> string \<Rightarrow> create_req \<Rightarrow> server \<Rightarrow> response \<times> server" where
  "create_apk e clk rnd req st =
     (let username = label_username req;
          projectName = label_projectName req;
          replacePath = target_replacePath req
      in case html_input e req of
           Inl resp \<Rightarrow> (resp, st)
         | Inr htmlContent \<Rightarrow>
             if \<not> isLikelyHtml htmlContent then (not_html, st)
             else
               (case readFile (templates_dir st) ''current_template.apk'' of
                  None \<Rightarrow> (no_template, st)
                | Some curTemplate \<Rightarrow>
                    (let outName = out_name req (at_name clk)
                     in (case rewrite e curTemplate replacePath (utf8_encode e htmlContent) of
                           Inl err \<Rightarrow> catch_block clk err st
                         | Inr bytes \<Rightarrow>
                             (let st1 = st\<lparr>generated_dir :=
                                          writeFileSync (generated_dir st) outName bytes\<rparr>;
                                  rec = Generated (decimal (at_id clk) @ ''_'' @ rnd) username
                                          projectName replacePath outName (at_created clk);
                                  st2 = saveDB (st1\<lparr>DB := (DB st1)
                                          \<lparr>stats_success := stats_success (DB st1) + 1,
                                           requests := rec # requests (DB st1)\<rparr>\<rparr>);
                                  st3 = st2\<lparr>timers := timers st2 @
                                          [(at_timer clk + timeout_delay (CLEANUP_SECONDS e * 1000),
                                            outName)]\<rparr>
                              in (Json 200 True (Some ''APK generated'')
                                    (DownloadUrl (''/generated/'' @ outName)), st3))))))"

subsection \<open>Serving and removing generated files\<close>

text \<open>\<^verbatim>\<open>express.static\<close> on the directory \<^verbatim>\<open>generated\<close>: the bytes of the file of
  that name, or nothing (the request then ends in a 404).\<close>

definition serve_generated :: "server \<Rightarrow> string \<Rightarrow> buffer option" where
  "serve_generated st name = readFile (generated_dir st) name"

text \<open>The callback of the timer.\<close>

definition expire :: "string \<Rightarrow> server \<Rightarrow> server" where
  "expire name st = st\<lparr>generated_dir := unlink_ignore (generated_dir st) name\<rparr>"

text \<open>The clock reaches \<open>t\<close>: every timer due by then runs and is gone.\<close>

definition run_timers :: "nat \<Rightarrow> server \<Rightarrow> server" where
  "run_timers t st =
     (fold (\<lambda>(due, name) s. expire name s) (filter (\<lambda>(due, name). due \<le> t) (timers st)) st)
       \<lparr>timers := filter (\<lambda>(due, name). \<not> due \<le> t) (timers st)\<rparr>"

subsection \<open>The server at work\<close>

text \<open>What happens to the server, one event at a time: an upload of a template, a
  request for an APK, or the clock reaching a time, at which the timers due run.\<close>

datatype event =
  Upload nat admin_req
| Create clock string create_req
| Clock nat

fun step :: "env \<Rightarrow> server \<Rightarrow> event \<Rightarrow> server" where
  "step e st (Upload now req) = snd (upload_template e now req st)"
| "step e st (Create clk rnd req) = snd (create_apk e clk rnd req st)"
| "step e st (Clock t) = run_timers t st"

definition run :: "env \<Rightarrow> event list \<Rightarrow> server \<Rightarrow> server" where
  "run e evs st = foldl (step e) st evs"

text \<open>The events come in the order of time, from \<open>t0\<close> on: the clock never goes back,
  neither from one event to the next nor within a call of the handler.\<close>

fun in_order :: "nat \<Rightarrow> event list \<Rightarrow> bool" where
  "in_order t0 [] = True"
| "in_order t0 (Upload now req # evs) = (t0 \<le> now \<and> in_order now evs)"
| "in_order t0 (Create clk rnd req # evs) =
     (t0 \<le> at_name clk \<and> at_name clk \<le> at_timer clk \<and> in_order (at_timer clk) evs)"
| "in_order t0 (Clock t # evs) = (t0 \<le> t \<and> in_order t evs)"

subsection \<open>A small installation, for examples\<close>

text \<open>A stand-in for the archive library, with a format of its own: every byte of a
  name or of a content is written after a 1, a 0 ends the name or the content; every
  entry is written after a 1, a 0 ends the archive.\<close>

definition byte_of_char :: "char \<Rightarrow> 8 word" where
  "byte_of_char c = of_nat (of_char c)"

definition char_of_byte :: "8 word \<Rightarrow> char" where
  "char_of_byte w = char_of (unat w)"

fun enc_bytes :: "buffer \<Rightarrow> buffer" where
  "enc_bytes [] = [0]"
| "enc_bytes (b # bs) = 1 # b # enc_bytes bs"

fun dec_bytes :: "buffer \<Rightarrow> (buffer \<times> buffer) option" where
  "dec_bytes [] = None"
| "dec_bytes [t] = (if t = 0 then Some ([], []) else None)"
| "dec_bytes (t # b # r) =
     (if t = 0 then Some ([], b # r)
      else (case dec_bytes r of None \<Rightarrow> None | Some (bs, rest) \<Rightarrow> Some (b # bs, rest)))"

fun enc_entries :: "zip \<Rightarrow> buffer" where
  "enc_entries [] = [0]"
| "enc_entries ((n, d) # z) = 1 # enc_bytes (map byte_of_char n) @ enc_bytes d @ enc_entries z"

text \<open>Reading, with a bound on the number of entries to read.\<close>

fun dec_entries :: "nat \<Rightarrow> buffer \<Rightarrow> zip option" where
  "dec_entries 0 b = None"
| "dec_entries (Suc k) [] = None"
| "dec_entries (Suc k) (t # r) =
     (if t = 0 then (if r = [] then Some [] else None)
      else (case dec_bytes r of
              None \<Rightarrow> None
            | Some (n, r1) \<Rightarrow>
                (case dec_bytes r1 of
                   None \<Rightarrow> None
                 | Some (d, r2) \<Rightarrow>
                     (case dec_entries k r2 of
                        None \<Rightarrow> None
                      | Some z \<Rightarrow> Some ((map char_of_byte n, d) # z)))))"

text \<open>The names of entries, cleaned as a library may do it: empty segments and
  \<^verbatim>\<open>.\<close> are dropped, \<^verbatim>\<open>..\<close> takes the segment before it away.\<close>

fun split_slash :: "string \<Rightarrow> string list" where
  "split_slash [] = [[]]"
| "split_slash (c # cs) =
     (if c = CHR ''/'' then [] # split_slash cs
      else (case split_slash cs of [] \<Rightarrow> [[c]] | s # ss \<Rightarrow> (c # s) # ss))"

fun resolve :: "string list \<Rightarrow> string list \<Rightarrow> string list" where
  "resolve acc [] = rev acc"
| "resolve acc (s # ss) =
     (if s = [] \<or> s = ''.'' then resolve acc ss
      else if s = ''..'' then resolve (tl acc) ss
      else resolve (s # acc) ss)"

fun join_slash :: "string list \<Rightarrow> string" where
  "join_slash [] = []"
| "join_slash [s] = s"
| "join_slash (s # t # ss) = s @ ''/'' @ join_slash (t # ss)"

definition clean_path :: "string \<Rightarrow> string" where
  "clean_path p = join_slash (resolve [] (split_slash p))"

definition demo_addFile :: "zip \<Rightarrow> string \<Rightarrow> buffer \<Rightarrow> zip" where
  "demo_addFile z p x =
     (if endsWith p ''/'' then z @ [(clean_path p @ ''/'', [])]
      else (case map_of z (clean_path p) of
              None \<Rightarrow> z @ [(clean_path p, x)]
            | Some d \<Rightarrow> setData z (clean_path p) x))"

text \<open>A listing in the order of the codes of the characters.\<close>

fun name_le :: "string \<Rightarrow> string \<Rightarrow> bool" where
  "name_le [] t = True"
| "name_le (c # cs) [] = False"
| "name_le (c # cs) (d # ds) =
     ((of_char c :: nat) < of_char d \<or> (c = d \<and> name_le cs ds))"

fun insert_name :: "string \<Rightarrow> string list \<Rightarrow> string list" where
  "insert_name n [] = [n]"
| "insert_name n (m # ms) = (if name_le n m then n # m # ms else m # insert_name n ms)"

definition sort_names :: "string list \<Rightarrow> string list" where
  "sort_names ns = foldr insert_name ns []"

text \<open>Text is ASCII.\<close>

definition demo_env :: env where
  "demo_env =
     \<lparr>ADMIN_PASS = ''admin123'', CLEANUP_SECONDS = 3600,
      readZip = (\<lambda>b. case dec_entries (length b) b of
                       None \<Rightarrow> Inl ''Error: Invalid or unsupported zip format. No END header found''
                     | Some z \<Rightarrow> Inr z),
      toBuffer = enc_entries,
      entry_key = clean_path,
      addFile = demo_addFile,
      listing = sort_names,
      utf8_decode = map char_of_byte,
      utf8_encode = map byte_of_char\<rparr>"

definition fresh_server :: server where
  "fresh_server =
     \<lparr>DB = \<lparr>stats_success = 0, stats_fail = 0, requests = []\<rparr>,
      db_file = \<lparr>stats_success = 0, stats_fail = 0, requests = []\<rparr>,
      templates_dir = [], generated_dir = [], timers = []\<rparr>"

definition demo_admin :: "buffer \<Rightarrow> admin_req" where
  "demo_admin buf = \<lparr>header_pass = Some ''admin123'', query_pass = None, template_file = Some buf\<rparr>"

text \<open>A template of two entries, and the server after its upload at time 5.\<close>

definition demo_zip :: zip where
  "demo_zip = [(''assets/www/index.html'', [111, 108, 100]), (''classes.dex'', [1, 2, 3])]"

definition demo_template :: buffer where
  "demo_template = enc_entries demo_zip"

definition demo_server :: server where
  "demo_server = fresh_server\<lparr>templates_dir :=
     [(''template_5.apk'', demo_template), (''current_template.apk'', demo_template)]\<rparr>"

text \<open>A call of the handler that begins at time 7 and sets its timer at time 9.\<close>

definition demo_clock :: clock where
  "demo_clock = \<lparr>at_name = 7, at_id = 8, at_created = 8, at_timer = 9, at_catch = 8\<rparr>"

definition paste_req :: "string \<Rightarrow> create_req" where
  "paste_req t =
     \<lparr>body_username = None, body_projectName = None, body_replacePath = None,
      body_text = Some t, req_file = None\<rparr>"

text \<open>A request with both a pasted page and an uploaded file that is no HTML file.\<close>

definition both_req :: create_req where
  "both_req = (paste_req ''<html>'')\<lparr>req_file := Some (''notes.txt'', [104, 105])\<rparr>"

text \<open>A request whose target path climbs out of the archive's root, and one whose
  user name is markup.\<close>

definition traversal_req :: create_req where
  "traversal_req = (paste_req ''<html>'')\<lparr>body_replacePath := Some ''../../evil.html''\<rparr>"

definition script_req :: create_req where
  "script_req = (paste_req ''<html>'')\<lparr>body_username := Some ''<script>''\<rparr>"


text \<open>What follows the call: the clock, another request, and the clock again.\<close>

definition later_events :: "event list" where
  "later_events =
     [Clock 1000,
      Create \<lparr>at_name = 1007, at_id = 1007, at_created = 1008, at_timer = 1009, at_catch = 1008\<rparr>
        ''p0q1r2'' (paste_req ''<body>''),
      Clock 2000]"

section \<open>Properties\<close>

subsection \<open>The validator\<close>

lemma startsWith_iff: "startsWith s m \<longleftrightarrow> (\<exists>w. s = m @ w)"
  by (induction s m rule: startsWith.induct) auto

lemma includes_str_iff: "includes_str s m \<longleftrightarrow> (\<exists>u w. s = u @ m @ w)"
proof (induction s)
  case Nil
  then show ?case by (simp add: startsWith_iff)
next
  case (Cons c cs)
  show ?case
  proof
    assume "includes_str (c # cs) m"
    then consider "startsWith (c # cs) m" | "includes_str cs m" by auto
    then show "\<exists>u w. c # cs = u @ m @ w"
    proof cases
      case 1
      then obtain w where "c # cs = m @ w" using startsWith_iff by blast
      then have "c # cs = [] @ m @ w" by simp
      then show ?thesis by blast
    next
      case 2
      then obtain u w where "cs = u @ m @ w" using Cons.IH by blast
      then have "c # cs = (c # u) @ m @ w" by simp
      then show ?thesis by blast
    qed
  next
    assume "\<exists>u w. c # cs = u @ m @ w"
    then obtain u w where uw: "c # cs = u @ m @ w" by blast
    show "includes_str (c # cs) m"
    proof (cases u)
      case Nil
      with uw have "startsWith (c # cs) m" using startsWith_iff by auto
      then show ?thesis by simp
    next
      case (Cons a u')
      with uw have "cs = u' @ m @ w" by simp
      then have "includes_str cs m" using Cons.IH by blast
      then show ?thesis by simp
    qed
  qed
qed

lemma of_char_lower_char:
  "(of_char (lower_char c) :: nat) =
     (if (65 \<le> (of_char c :: nat) \<and> (of_char c :: nat) \<le> 90)
         \<or> (192 \<le> (of_char c :: nat) \<and> (of_char c :: nat) \<le> 222 \<and> (of_char c :: nat) \<noteq> 215)
      then of_char c + 32 else of_char c)"
  by (simp add: lower_char_def Let_def)

lemma lower_char_plain:
  assumes "plain_char k"
  shows "lower_char c = k \<longleftrightarrow> same_letter c k"
proof -
  have "lower_char c = k \<longleftrightarrow> (of_char (lower_char c) :: nat) = of_char k"
    by simp
  moreover have "c = k \<longleftrightarrow> (of_char c :: nat) = of_char k"
    by simp
  ultimately show ?thesis
    using assms unfolding same_letter_def plain_char_def of_char_lower_char
    by (auto split: if_splits)
qed

lemma toLowerCase_plain:
  "list_all plain_char m \<Longrightarrow> toLowerCase v = m \<longleftrightarrow> list_all2 same_letter v m"
proof (induction v arbitrary: m)
  case Nil
  then show ?case by (auto simp: toLowerCase_def)
next
  case (Cons c v)
  show ?case
  proof (cases m)
    case Nil
    then show ?thesis by (simp add: toLowerCase_def)
  next
    case (Cons k m')
    with Cons.prems have k: "plain_char k" and m': "list_all plain_char m'" by simp_all
    from Cons.IH [OF m'] have "map lower_char v = m' \<longleftrightarrow> list_all2 same_letter v m'"
      by (simp add: toLowerCase_def)
    with lower_char_plain [OF k, of c] Cons show ?thesis
      by (simp add: toLowerCase_def)
  qed
qed

lemma contains_ci_iff:
  assumes "list_all plain_char m"
  shows "contains_ci s m \<longleftrightarrow> includes_str (toLowerCase s) m"
proof
  assume "includes_str (toLowerCase s) m"
  then obtain u w where "map lower_char s = u @ m @ w"
    unfolding includes_str_iff toLowerCase_def by blast
  then obtain s1 s23 where a: "s = s1 @ s23" "u = map lower_char s1" "m @ w = map lower_char s23"
    using map_eq_append_conv [of lower_char s u "m @ w"] by blast
  from a(3) obtain s2 s3 where b: "s23 = s2 @ s3" "m = map lower_char s2" "w = map lower_char s3"
    using map_eq_append_conv [of lower_char s23 m w] by metis
  from b(2) have "toLowerCase s2 = m" by (simp add: toLowerCase_def)
  then have "list_all2 same_letter s2 m" using toLowerCase_plain [OF assms] by blast
  with a(1) b(1) show "contains_ci s m" unfolding contains_ci_def by blast
next
  assume "contains_ci s m"
  then obtain u v w where s: "s = u @ v @ w" and "list_all2 same_letter v m"
    unfolding contains_ci_def by blast
  then have "toLowerCase v = m" using toLowerCase_plain [OF assms] by blast
  with s have "toLowerCase s = toLowerCase u @ m @ toLowerCase w"
    by (auto simp: toLowerCase_def)
  then show "includes_str (toLowerCase s) m" unfolding includes_str_iff by blast
qed

lemma markers_plain:
  "list_all plain_char ''<!doctype html''" "list_all plain_char ''<html''"
  "list_all plain_char ''<body''" "list_all plain_char ''<body>''"
  "list_all plain_char ''<body ''" "list_all plain_char ''<!doctype''"
  by (simp_all add: plain_char_def)

lemma contains_ci_Nil: "m \<noteq> [] \<Longrightarrow> \<not> contains_ci [] m"
  by (auto simp: contains_ci_def)

lemma isLikelyHtml_iff:
  "isLikelyHtml s \<longleftrightarrow>
     contains_ci s ''<!doctype html'' \<or> contains_ci s ''<html'' \<or> contains_ci s ''<body''"
proof (cases "s = []")
  case True
  then show ?thesis by (simp add: isLikelyHtml_def contains_ci_Nil)
next
  case False
  then show ?thesis
    unfolding contains_ci_iff [OF markers_plain(1)] contains_ci_iff [OF markers_plain(2)]
      contains_ci_iff [OF markers_plain(3)]
    by (simp add: isLikelyHtml_def Let_def)
qed

lemma create_apk_no_input:
  "html_input e req = Inl resp \<Longrightarrow> create_apk e clk rnd req st = (resp, st)"
  by (simp add: create_apk_def Let_def)

lemma create_apk_not_html:
  "html_input e req = Inr s \<Longrightarrow> \<not> isLikelyHtml s \<Longrightarrow> create_apk e clk rnd req st = (not_html, st)"
  by (simp add: create_apk_def Let_def)

lemma html_input_paste: "t \<noteq> [] \<Longrightarrow> html_input e (paste_req t) = Inr t"
  by (simp add: html_input_def paste_req_def)

text \<open>
  C5, as stated, fails. The text \<^verbatim>\<open><bodyguard\<close> is accepted, though it has no
  doctype declaration, no \<^verbatim>\<open><html\<close> and no opening body tag (the tag that opens
  there is another one: neither \<^verbatim>\<open><body>\<close> nor \<^verbatim>\<open><body\<close> with a space occurs). The
  text \<^verbatim>\<open><!DOCTYPE  html><p>x</p>\<close>, whose doctype declaration has two spaces, is
  rejected.
\<close>

theorem validator_markers_are_prefixes:
  "isLikelyHtml ''<bodyguard''
   \<and> \<not> contains_ci ''<bodyguard'' ''<body>'' \<and> \<not> contains_ci ''<bodyguard'' ''<body ''
   \<and> \<not> contains_ci ''<bodyguard'' ''<html'' \<and> \<not> contains_ci ''<bodyguard'' ''<!doctype''
   \<and> contains_ci ''<!DOCTYPE  html><p>x</p>'' ''<!doctype''
   \<and> \<not> isLikelyHtml ''<!DOCTYPE  html><p>x</p>''"
proof -
  have a: "toLowerCase ''<bodyguard'' = ''<bodyguard''"
    "toLowerCase ''<!DOCTYPE  html><p>x</p>'' = ''<!doctype  html><p>x</p>''"
    by code_simp+
  show ?thesis
    unfolding contains_ci_iff [OF markers_plain(4)] contains_ci_iff [OF markers_plain(5)]
      contains_ci_iff [OF markers_plain(2)] contains_ci_iff [OF markers_plain(6)]
      isLikelyHtml_def Let_def a
    by simp
qed

text \<open>
  C5, amended. The validator accepts a text exactly when it contains, whatever the case
  of its letters, one of the three sequences of characters \<^verbatim>\<open><!doctype html\<close>,
  \<^verbatim>\<open><html\<close> and \<^verbatim>\<open><body\<close>. A request whose content contains none of the three is
  answered with status 400 and leaves the state, and so the directory of generated files,
  as it was.
\<close>

theorem validator_accepts_iff_marker:
  "(isLikelyHtml s \<longleftrightarrow>
      contains_ci s ''<!doctype html'' \<or> contains_ci s ''<html'' \<or> contains_ci s ''<body'')
   \<and> (html_input e req = Inr s \<and> \<not> (contains_ci s ''<!doctype html'' \<or> contains_ci s ''<html''
          \<or> contains_ci s ''<body'')
        \<longrightarrow> create_apk e clk rnd req st = (not_html, st) \<and> status not_html = 400)"
  using isLikelyHtml_iff [of s] create_apk_not_html [of e req s clk rnd st]
  by (simp add: not_html_def)

theorem validator_accepts_iff_marker_witness:
  "contains_ci ''<BoDy class=x>'' ''<body'' \<and> isLikelyHtml ''<BoDy class=x>''
   \<and> html_input demo_env (paste_req ''hello world'') = Inr ''hello world''
   \<and> \<not> (contains_ci ''hello world'' ''<!doctype html'' \<or> contains_ci ''hello world'' ''<html''
          \<or> contains_ci ''hello world'' ''<body'')
   \<and> create_apk demo_env demo_clock ''k3x9qz'' (paste_req ''hello world'') demo_server
       = (not_html, demo_server)"
proof -
  have "''<BoDy class=x>'' = [] @ ''<BoDy'' @ '' class=x>''" by simp
  moreover have "list_all2 same_letter ''<BoDy'' ''<body''"
    by (simp add: same_letter_def)
  ultimately have p: "contains_ci ''<BoDy class=x>'' ''<body''"
    unfolding contains_ci_def by blast
  then have q: "isLikelyHtml ''<BoDy class=x>''"
    using validator_accepts_iff_marker [of "''<BoDy class=x>''"] by blast
  have a: "html_input demo_env (paste_req ''hello world'') = Inr ''hello world''"
    by (simp add: html_input_paste)
  have "\<not> isLikelyHtml ''hello world''"
    by (simp add: isLikelyHtml_def toLowerCase_def lower_char_def)
  then have b: "\<not> (contains_ci ''hello world'' ''<!doctype html'' \<or> contains_ci ''hello world'' ''<html''
          \<or> contains_ci ''hello world'' ''<body'')"
    using validator_accepts_iff_marker [of "''hello world''"] by blast
  with a have "create_apk demo_env demo_clock ''k3x9qz'' (paste_req ''hello world'') demo_server
       = (not_html, demo_server)"
    using validator_accepts_iff_marker
      [of "''hello world''" demo_env "paste_req ''hello world''" demo_clock "''k3x9qz''" demo_server]
    by blast
  with p q a b show ?thesis by blast
qed

subsection \<open>Files, archives and the stand-in library\<close>

lemma map_of_writeFileSync: "map_of (writeFileSync d n b) = (map_of d)(n \<mapsto> b)"
  by (induction d n b rule: writeFileSync.induct) auto

lemma readFile_writeFileSync:
  "readFile (writeFileSync d n b) m = (if m = n then Some b else readFile d m)"
  by (simp add: readFile_def map_of_writeFileSync)

lemma names_writeFileSync: "fst ` set (writeFileSync d n b) = insert n (fst ` set d)"
  by (induction d n b rule: writeFileSync.induct) auto

lemma readFile_unlink_ignore:
  "readFile (unlink_ignore d n) m = (if m = n then None else readFile d m)"
  unfolding readFile_def unlink_ignore_def
  by (induction d) auto

lemma unlink_ignore_idem: "unlink_ignore (unlink_ignore d n) n = unlink_ignore d n"
  by (simp add: unlink_ignore_def)

lemma unlink_ignore_absent: "readFile d n = None \<Longrightarrow> unlink_ignore d n = d"
  unfolding readFile_def unlink_ignore_def
  by (induction d) (auto split: if_splits)



lemma rewrite_entries_absent:
  "getEntry e z p = None \<Longrightarrow> rewrite_entries e z p x = addFile e z p x"
  by (simp add: rewrite_entries_def)

lemma rewrite_opened:
  "readZip e c = Inr z \<Longrightarrow> rewrite e c p x = Inr (toBuffer e (rewrite_entries e z p x))"
  by (simp add: rewrite_def)


lemma char_of_byte_of_char: "char_of_byte (byte_of_char c) = c"
  by (simp add: char_of_byte_def byte_of_char_def unat_of_nat)

lemma dec_enc_bytes: "dec_bytes (enc_bytes bs @ r) = Some (bs, r)"
proof (induction bs)
  case Nil
  then show ?case by (cases r) simp_all
next
  case (Cons b bs)
  then show ?case by simp
qed

lemma dec_enc_entries: "length z < k \<Longrightarrow> dec_entries k (enc_entries z) = Some z"
proof (induction z arbitrary: k)
  case Nil
  then show ?case by (cases k) simp_all
next
  case (Cons a z)
  obtain n d where a: "a = (n, d)" by (cases a)
  from Cons.prems obtain k' where k: "k = Suc k'" and "length z < k'"
    by (cases k) simp_all
  with Cons.IH have "dec_entries k' (enc_entries z) = Some z" by blast
  then show ?case
    by (simp add: a k dec_enc_bytes comp_def char_of_byte_of_char)
qed

lemma length_enc_entries: "length z < length (enc_entries z)"
  by (induction z) auto

lemma demo_reads: "readZip demo_env (toBuffer demo_env z) = Inr z"
  by (simp add: demo_env_def dec_enc_entries length_enc_entries)


lemma demo_readZip: "readZip demo_env demo_template = Inr demo_zip"
  using demo_reads [of demo_zip] by (simp add: demo_template_def demo_env_def)

lemma demo_server_template:
  "readFile (templates_dir demo_server) ''current_template.apk'' = Some demo_template"
  by (simp add: readFile_def demo_server_def fresh_server_def)

lemma isLikelyHtml_demo: "isLikelyHtml ''<html>''"
  by (simp add: isLikelyHtml_def toLowerCase_def lower_char_def)

lemma demo_html_bytes: "utf8_encode demo_env ''<html>'' = [60, 104, 116, 109, 108, 62]"
  by (simp add: demo_env_def byte_of_char_def)

subsection \<open>Replacement of a present entry\<close>



subsection \<open>The outcomes of create-apk\<close>

lemma create_apk_no_template:
  "html_input e req = Inr s \<Longrightarrow> isLikelyHtml s \<Longrightarrow>
   readFile (templates_dir st) ''current_template.apk'' = None \<Longrightarrow>
   create_apk e clk rnd req st = (no_template, st)"
  by (simp add: create_apk_def Let_def)

lemma create_apk_thrown:
  "html_input e req = Inr s \<Longrightarrow> isLikelyHtml s \<Longrightarrow>
   readFile (templates_dir st) ''current_template.apk'' = Some c \<Longrightarrow>
   rewrite e c (target_replacePath req) (utf8_encode e s) = Inl err \<Longrightarrow>
   create_apk e clk rnd req st = catch_block clk err st"
  by (simp add: create_apk_def Let_def)

lemma create_apk_generated:
  "html_input e req = Inr s \<Longrightarrow> isLikelyHtml s \<Longrightarrow>
   readFile (templates_dir st) ''current_template.apk'' = Some c \<Longrightarrow>
   rewrite e c (target_replacePath req) (utf8_encode e s) = Inr bytes \<Longrightarrow>
   create_apk e clk rnd req st =
     (Json 200 True (Some ''APK generated'')
        (DownloadUrl (''/generated/'' @ out_name req (at_name clk))),
      st\<lparr>generated_dir := writeFileSync (generated_dir st) (out_name req (at_name clk)) bytes,
         DB := (DB st)\<lparr>stats_success := stats_success (DB st) + 1,
                       requests := Generated (decimal (at_id clk) @ ''_'' @ rnd) (label_username req)
                          (label_projectName req) (target_replacePath req)
                          (out_name req (at_name clk)) (at_created clk)
                          # requests (DB st)\<rparr>,
         db_file := (DB st)\<lparr>stats_success := stats_success (DB st) + 1,
                       requests := Generated (decimal (at_id clk) @ ''_'' @ rnd) (label_username req)
                          (label_projectName req) (target_replacePath req)
                          (out_name req (at_name clk)) (at_created clk)
                          # requests (DB st)\<rparr>,
         timers := timers st @
           [(at_timer clk + timeout_delay (CLEANUP_SECONDS e * 1000), out_name req (at_name clk))]\<rparr>)"
  by (simp add: create_apk_def Let_def saveDB_def)

lemma html_input_cong:
  assumes a: "req_file r1 = req_file r2" and b: "body_text r1 = body_text r2"
  shows "html_input e r1 = html_input e r2"
  unfolding html_input_def a b by (rule refl)

lemma create_apk_cong:
  assumes a: "html_input e r1 = html_input e r2"
    and b: "label_username r1 = label_username r2"
    and c: "label_projectName r1 = label_projectName r2"
    and d: "target_replacePath r1 = target_replacePath r2"
  shows "create_apk e clk rnd r1 st = create_apk e clk rnd r2 st"
proof -
  have n: "out_name r1 (at_name clk) = out_name r2 (at_name clk)"
    by (simp add: out_name_def c)
  show ?thesis
    unfolding create_apk_def a b c d n by (rule refl)
qed

lemma create_apk_generated_response:
  assumes "html_input e req = Inr s" "isLikelyHtml s"
    "readFile (templates_dir st) ''current_template.apk'' = Some c"
    "rewrite e c (target_replacePath req) (utf8_encode e s) = Inr bytes"
  shows "fst (create_apk e clk rnd req st) =
     Json 200 True (Some ''APK generated'')
       (DownloadUrl (''/generated/'' @ out_name req (at_name clk)))"
  by (simp add: create_apk_generated [OF assms])

lemma create_apk_generated_dir:
  assumes "html_input e req = Inr s" "isLikelyHtml s"
    "readFile (templates_dir st) ''current_template.apk'' = Some c"
    "rewrite e c (target_replacePath req) (utf8_encode e s) = Inr bytes"
  shows "generated_dir (snd (create_apk e clk rnd req st)) =
     writeFileSync (generated_dir st) (out_name req (at_name clk)) bytes"
  by (simp add: create_apk_generated [OF assms])

lemma create_apk_generated_timers:
  assumes "html_input e req = Inr s" "isLikelyHtml s"
    "readFile (templates_dir st) ''current_template.apk'' = Some c"
    "rewrite e c (target_replacePath req) (utf8_encode e s) = Inr bytes"
  shows "timers (snd (create_apk e clk rnd req st)) =
     timers st @
       [(at_timer clk + timeout_delay (CLEANUP_SECONDS e * 1000), out_name req (at_name clk))]"
  by (simp add: create_apk_generated [OF assms])

lemma create_apk_generated_DB:
  assumes "html_input e req = Inr s" "isLikelyHtml s"
    "readFile (templates_dir st) ''current_template.apk'' = Some c"
    "rewrite e c (target_replacePath req) (utf8_encode e s) = Inr bytes"
  shows "DB (snd (create_apk e clk rnd req st)) =
     (DB st)\<lparr>stats_success := stats_success (DB st) + 1,
              requests := Generated (decimal (at_id clk) @ ''_'' @ rnd) (label_username req)
                 (label_projectName req) (target_replacePath req)
                 (out_name req (at_name clk)) (at_created clk)
                 # requests (DB st)\<rparr>"
  by (simp add: create_apk_generated [OF assms])

lemma create_apk_generated_served:
  assumes "html_input e req = Inr s" "isLikelyHtml s"
    "readFile (templates_dir st) ''current_template.apk'' = Some c"
    "rewrite e c (target_replacePath req) (utf8_encode e s) = Inr bytes"
  shows "serve_generated (snd (create_apk e clk rnd req st)) (out_name req (at_name clk))
     = Some bytes"
  by (simp add: serve_generated_def create_apk_generated_dir [OF assms] readFile_writeFileSync)

lemma html_input_Inl:
  "html_input e req = Inl r \<Longrightarrow> r = unsupported_file \<or> r = no_html"
  by (auto simp: html_input_def Let_def split: option.splits if_splits)

lemma create_apk_response:
  "fst (create_apk e clk rnd req st) =
     (case html_input e req of
        Inl r \<Rightarrow> r
      | Inr s \<Rightarrow>
          if \<not> isLikelyHtml s then not_html
          else (case readFile (templates_dir st) ''current_template.apk'' of
                  None \<Rightarrow> no_template
                | Some c \<Rightarrow>
                    (case readZip e c of
                       Inl err \<Rightarrow> Json 500 False (Some ''server error'') (ErrorString err)
                     | Inr z \<Rightarrow> Json 200 True (Some ''APK generated'')
                                (DownloadUrl (''/generated/'' @ out_name req (at_name clk))))))"
  by (simp add: create_apk_def rewrite_def catch_block_def Let_def
      split: sum.splits option.splits)

lemma create_apk_200D:
  assumes "status (fst (create_apk e clk rnd req st)) = 200"
  shows "\<exists>s c z. html_input e req = Inr s \<and> isLikelyHtml s
           \<and> readFile (templates_dir st) ''current_template.apk'' = Some c
           \<and> readZip e c = Inr z"
proof (cases "html_input e req")
  case (Inl r)
  then have "fst (create_apk e clk rnd req st) = r" by (simp add: create_apk_response)
  moreover have "status r = 400"
    using html_input_Inl [OF Inl] by (auto simp: unsupported_file_def no_html_def)
  ultimately show ?thesis using assms by simp
next
  case (Inr s)
  show ?thesis
  proof (cases "isLikelyHtml s")
    case False
    with Inr assms show ?thesis by (simp add: create_apk_response not_html_def)
  next
    case True
    show ?thesis
    proof (cases "readFile (templates_dir st) ''current_template.apk''")
      case None
      with Inr True assms show ?thesis by (simp add: create_apk_response no_template_def)
    next
      case (Some c)
      show ?thesis
      proof (cases "readZip e c")
        case (Inl err)
        with Inr True Some assms show ?thesis by (simp add: create_apk_response)
      next
        case (Inr z)
        with \<open>html_input e req = Inr s\<close> True Some show ?thesis by blast
      qed
    qed
  qed
qed

lemma out_name_default:
  "body_projectName req = None \<Longrightarrow> out_name req (at_name demo_clock) = ''rapz-app_7.apk''"
  by (simp add: out_name_def label_projectName_def js_or_def substring0_def demo_clock_def
        replace_unsafe_def safe_char_def word_char_def decimal.simps digit_char_def)

subsection \<open>The target path and the source of the HTML\<close>

text \<open>
  C9. A request without a target path is handled as the same request with the path
  \<^verbatim>\<open>assets/www/index.html\<close>: the path it uses is that one, and when the content is
  accepted and the template opens, it is answered with status 200 and the generated
  archive is the template rewritten at that path.
\<close>

theorem default_target_path:
  "target_replacePath (req\<lparr>body_replacePath := None\<rparr>) = ''assets/www/index.html''
   \<and> create_apk e clk rnd (req\<lparr>body_replacePath := None\<rparr>) st =
       create_apk e clk rnd (req\<lparr>body_replacePath := Some ''assets/www/index.html''\<rparr>) st
   \<and> (html_input e req = Inr s \<and> isLikelyHtml s
        \<and> readFile (templates_dir st) ''current_template.apk'' = Some c \<and> readZip e c = Inr z
       \<longrightarrow> status (fst (create_apk e clk rnd (req\<lparr>body_replacePath := None\<rparr>) st)) = 200
           \<and> serve_generated (snd (create_apk e clk rnd (req\<lparr>body_replacePath := None\<rparr>) st))
                (out_name req (at_name clk))
               = Some (toBuffer e (rewrite_entries e z ''assets/www/index.html'' (utf8_encode e s))))"
proof (intro conjI impI)
  let ?r = "req\<lparr>body_replacePath := None\<rparr>"
  show t: "target_replacePath ?r = ''assets/www/index.html''"
    by (simp add: target_replacePath_def js_or_def)
  show "create_apk e clk rnd ?r st =
       create_apk e clk rnd (req\<lparr>body_replacePath := Some ''assets/www/index.html''\<rparr>) st"
  proof (rule create_apk_cong)
    show "html_input e ?r = html_input e (req\<lparr>body_replacePath := Some ''assets/www/index.html''\<rparr>)"
      by (rule html_input_cong) simp_all
  qed (simp_all add: target_replacePath_def js_or_def label_username_def label_projectName_def)
  assume h: "html_input e req = Inr s \<and> isLikelyHtml s
        \<and> readFile (templates_dir st) ''current_template.apk'' = Some c \<and> readZip e c = Inr z"
  have h1: "html_input e ?r = Inr s" using h html_input_cong [of ?r req e] by simp
  have h2: "isLikelyHtml s" using h by simp
  have h3: "readFile (templates_dir st) ''current_template.apk'' = Some c" using h by simp
  have h4: "rewrite e c (target_replacePath ?r) (utf8_encode e s)
              = Inr (toBuffer e (rewrite_entries e z ''assets/www/index.html'' (utf8_encode e s)))"
    using h t by (simp add: rewrite_opened)
  have n: "out_name ?r (at_name clk) = out_name req (at_name clk)"
    by (simp add: out_name_def label_projectName_def)
  show "status (fst (create_apk e clk rnd ?r st)) = 200"
    by (simp add: create_apk_generated_response [OF h1 h2 h3 h4])
  show "serve_generated (snd (create_apk e clk rnd ?r st)) (out_name req (at_name clk))
               = Some (toBuffer e (rewrite_entries e z ''assets/www/index.html'' (utf8_encode e s)))"
    using create_apk_generated_served [OF h1 h2 h3 h4, of clk rnd] by (simp add: n)
qed

theorem default_target_path_witness:
  "html_input demo_env (paste_req ''<html>'') = Inr ''<html>'' \<and> isLikelyHtml ''<html>''
   \<and> readFile (templates_dir demo_server) ''current_template.apk'' = Some demo_template
   \<and> readZip demo_env demo_template = Inr demo_zip
   \<and> body_replacePath (paste_req ''<html>'') = None
   \<and> status (fst (create_apk demo_env demo_clock ''k3x9qz'' (paste_req ''<html>'') demo_server)) = 200
   \<and> serve_generated (snd (create_apk demo_env demo_clock ''k3x9qz'' (paste_req ''<html>'') demo_server))
        ''rapz-app_7.apk''
       = Some (toBuffer demo_env [(''assets/www/index.html'', [60, 104, 116, 109, 108, 62]),
                                   (''classes.dex'', [1, 2, 3])])"
proof -
  have a: "html_input demo_env (paste_req ''<html>'') = Inr ''<html>''"
    by (simp add: html_input_paste)
  have r: "(paste_req ''<html>'')\<lparr>body_replacePath := None\<rparr> = paste_req ''<html>''"
    by (simp add: paste_req_def)
  have n: "out_name (paste_req ''<html>'') (at_name demo_clock) = ''rapz-app_7.apk''"
    by (rule out_name_default) (simp add: paste_req_def)
  have x: "rewrite_entries demo_env demo_zip ''assets/www/index.html'' (utf8_encode demo_env ''<html>'')
           = [(''assets/www/index.html'', [60, 104, 116, 109, 108, 62]), (''classes.dex'', [1, 2, 3])]"
    unfolding demo_html_bytes
    by (simp add: demo_env_def rewrite_entries_def getEntry_def updateFile_def demo_zip_def
        clean_path_def)
  have e: "body_replacePath (paste_req ''<html>'') = None"
    by (simp add: paste_req_def)
  note default_target_path [where req = "paste_req ''<html>''" and e = demo_env and clk = demo_clock
        and rnd = "''k3x9qz''" and st = demo_server and s = "''<html>''" and c = demo_template
        and z = demo_zip, THEN conjunct2, THEN conjunct2]
  with a isLikelyHtml_demo demo_server_template demo_readZip e show ?thesis
    unfolding r n x by blast
qed

text \<open>
  C10. When a request carries an uploaded file, the pasted text plays no part: whatever
  the text, the outcome is that of the request with the file alone. If the name of the file
  ends neither in \<^verbatim>\<open>.html\<close> nor in \<^verbatim>\<open>.htm\<close> (whatever the case of its letters), the
  request is answered with status 400 and changes nothing, even when the pasted text would
  pass the validator.
\<close>

theorem uploaded_file_takes_precedence:
  assumes "req_file req = Some (name, buf)"
  shows "create_apk e clk rnd (req\<lparr>body_text := t\<rparr>) st = create_apk e clk rnd req st
         \<and> (\<not> endsWith (toLowerCase name) ''.html'' \<and> \<not> endsWith (toLowerCase name) ''.htm''
              \<longrightarrow> create_apk e clk rnd (req\<lparr>body_text := t\<rparr>) st = (unsupported_file, st)
                  \<and> status unsupported_file = 400)"
proof -
  have "create_apk e clk rnd (req\<lparr>body_text := t\<rparr>) st = create_apk e clk rnd req st"
    using assms
    by (intro create_apk_cong)
      (simp_all add: target_replacePath_def html_input_def
        label_username_def label_projectName_def)
  moreover have "create_apk e clk rnd req st = (unsupported_file, st)"
    if "\<not> endsWith (toLowerCase name) ''.html''" "\<not> endsWith (toLowerCase name) ''.htm''"
  proof -
    have "html_input e req = Inl unsupported_file"
      using assms that by (simp add: html_input_def)
    then show ?thesis by (rule create_apk_no_input)
  qed
  ultimately show ?thesis by (simp add: unsupported_file_def)
qed

theorem uploaded_file_takes_precedence_witness:
  "req_file both_req = Some (''notes.txt'', [104, 105])
   \<and> body_text both_req = Some ''<html>'' \<and> isLikelyHtml ''<html>''
   \<and> \<not> endsWith (toLowerCase ''notes.txt'') ''.html''
   \<and> \<not> endsWith (toLowerCase ''notes.txt'') ''.htm''
   \<and> create_apk demo_env demo_clock ''k3x9qz'' both_req demo_server = (unsupported_file, demo_server)"
proof -
  have a: "req_file both_req = Some (''notes.txt'', [104, 105])"
    by (simp add: both_req_def)
  have b: "body_text both_req = Some ''<html>''"
    by (simp add: both_req_def paste_req_def)
  have d: "\<not> endsWith (toLowerCase ''notes.txt'') ''.html''"
    "\<not> endsWith (toLowerCase ''notes.txt'') ''.htm''"
    by (simp_all add: endsWith_def toLowerCase_def lower_char_def)
  have r: "both_req\<lparr>body_text := Some ''<html>''\<rparr> = both_req"
    by (simp add: both_req_def paste_req_def)
  from uploaded_file_takes_precedence [OF a, of demo_env demo_clock "''k3x9qz''" "Some ''<html>''" demo_server]
  have "create_apk demo_env demo_clock ''k3x9qz'' both_req demo_server = (unsupported_file, demo_server)"
    unfolding r using d by blast
  with a b isLikelyHtml_demo d show ?thesis by blast
qed

subsection \<open>The target path is not checked\<close>

text \<open>
  C2, as stated, fails. A request whose target path is \<^verbatim>\<open>../../evil.html\<close> is not
  rejected: it is answered with status 200, and the generated archive is the template
  with the entry that the library's \<^verbatim>\<open>addFile\<close> makes of that path.
\<close>

theorem traversal_path_accepted:
  "body_replacePath traversal_req = Some ''../../evil.html''
   \<and> status (fst (create_apk demo_env demo_clock ''k3x9qz'' traversal_req demo_server)) = 200
   \<and> serve_generated (snd (create_apk demo_env demo_clock ''k3x9qz'' traversal_req demo_server))
        ''rapz-app_7.apk''
       = Some (toBuffer demo_env
           (addFile demo_env demo_zip ''../../evil.html'' [60, 104, 116, 109, 108, 62]))
   \<and> addFile demo_env demo_zip ''../../evil.html'' [60, 104, 116, 109, 108, 62]
       = demo_zip @ [(''evil.html'', [60, 104, 116, 109, 108, 62])]"
proof -
  have a: "html_input demo_env traversal_req = Inr ''<html>''"
    by (simp add: html_input_def traversal_req_def paste_req_def)
  have t: "target_replacePath traversal_req = ''../../evil.html''"
    by (simp add: target_replacePath_def traversal_req_def js_or_def)
  have g: "getEntry demo_env demo_zip ''../../evil.html'' = None"
    by (simp add: getEntry_def demo_env_def clean_path_def demo_zip_def)
  have r: "rewrite demo_env demo_template (target_replacePath traversal_req)
        (utf8_encode demo_env ''<html>'')
      = Inr (toBuffer demo_env
          (addFile demo_env demo_zip ''../../evil.html'' [60, 104, 116, 109, 108, 62]))"
    unfolding t rewrite_opened [OF demo_readZip] rewrite_entries_absent [OF g] demo_html_bytes
    by (rule refl)
  have n: "out_name traversal_req (at_name demo_clock) = ''rapz-app_7.apk''"
    by (rule out_name_default) (simp add: traversal_req_def paste_req_def)
  have "status (fst (create_apk demo_env demo_clock ''k3x9qz'' traversal_req demo_server)) = 200"
    by (simp add: create_apk_generated_response [OF a isLikelyHtml_demo demo_server_template r])
  moreover have "serve_generated
        (snd (create_apk demo_env demo_clock ''k3x9qz'' traversal_req demo_server)) ''rapz-app_7.apk''
      = Some (toBuffer demo_env
          (addFile demo_env demo_zip ''../../evil.html'' [60, 104, 116, 109, 108, 62]))"
    using create_apk_generated_served [OF a isLikelyHtml_demo demo_server_template r,
        of demo_clock "''k3x9qz''"]
    by (simp add: n)
  moreover have "body_replacePath traversal_req = Some ''../../evil.html''"
    by (simp add: traversal_req_def)
  moreover have "addFile demo_env demo_zip ''../../evil.html'' [60, 104, 116, 109, 108, 62]
       = demo_zip @ [(''evil.html'', [60, 104, 116, 109, 108, 62])]"
    by (simp add: demo_env_def demo_addFile_def clean_path_def endsWith_def demo_zip_def)
  ultimately show ?thesis by blast
qed

text \<open>
  C2, amended. The handler does not inspect the target path. The response to a request
  is the same whatever its path, so no request is rejected for its path; and when the
  content is accepted and the template opens, a request with any nonempty path, a path
  with \<^verbatim>\<open>..\<close> segments included, is answered with status 200, the path having been
  handed to the archive library as it came.
\<close>

theorem target_path_unchecked:
  "fst (create_apk e clk rnd (req\<lparr>body_replacePath := Some p\<rparr>) st) = fst (create_apk e clk rnd req st)
   \<and> (p \<noteq> [] \<and> html_input e req = Inr s \<and> isLikelyHtml s
        \<and> readFile (templates_dir st) ''current_template.apk'' = Some c \<and> readZip e c = Inr z
       \<longrightarrow> status (fst (create_apk e clk rnd (req\<lparr>body_replacePath := Some p\<rparr>) st)) = 200
           \<and> serve_generated (snd (create_apk e clk rnd (req\<lparr>body_replacePath := Some p\<rparr>) st))
                (out_name req (at_name clk))
               = Some (toBuffer e (rewrite_entries e z p (utf8_encode e s))))"
proof (intro conjI impI)
  let ?r = "req\<lparr>body_replacePath := Some p\<rparr>"
  have i: "html_input e ?r = html_input e req"
    by (rule html_input_cong) simp_all
  have n: "out_name ?r (at_name clk) = out_name req (at_name clk)"
    by (simp add: out_name_def label_projectName_def)
  show "fst (create_apk e clk rnd ?r st) = fst (create_apk e clk rnd req st)"
    unfolding create_apk_response i n by (rule refl)
  assume h: "p \<noteq> [] \<and> html_input e req = Inr s \<and> isLikelyHtml s
        \<and> readFile (templates_dir st) ''current_template.apk'' = Some c \<and> readZip e c = Inr z"
  have t: "target_replacePath ?r = p"
    using h by (simp add: target_replacePath_def js_or_def)
  have h1: "html_input e ?r = Inr s" using h i by simp
  have h2: "isLikelyHtml s" using h by simp
  have h3: "readFile (templates_dir st) ''current_template.apk'' = Some c" using h by simp
  have h4: "rewrite e c (target_replacePath ?r) (utf8_encode e s)
              = Inr (toBuffer e (rewrite_entries e z p (utf8_encode e s)))"
    using h t by (simp add: rewrite_opened)
  show "status (fst (create_apk e clk rnd ?r st)) = 200"
    by (simp add: create_apk_generated_response [OF h1 h2 h3 h4])
  show "serve_generated (snd (create_apk e clk rnd ?r st)) (out_name req (at_name clk))
               = Some (toBuffer e (rewrite_entries e z p (utf8_encode e s)))"
    using create_apk_generated_served [OF h1 h2 h3 h4, of clk rnd] by (simp add: n)
qed

theorem target_path_unchecked_witness:
  "''../up.html'' \<noteq> [] \<and> html_input demo_env (paste_req ''<html>'') = Inr ''<html>''
   \<and> isLikelyHtml ''<html>''
   \<and> readFile (templates_dir demo_server) ''current_template.apk'' = Some demo_template
   \<and> readZip demo_env demo_template = Inr demo_zip
   \<and> status (fst (create_apk demo_env demo_clock ''k3x9qz''
        ((paste_req ''<html>'')\<lparr>body_replacePath := Some ''../up.html''\<rparr>) demo_server)) = 200
   \<and> serve_generated (snd (create_apk demo_env demo_clock ''k3x9qz''
        ((paste_req ''<html>'')\<lparr>body_replacePath := Some ''../up.html''\<rparr>) demo_server))
        (out_name (paste_req ''<html>'') (at_name demo_clock))
       = Some (toBuffer demo_env
           (rewrite_entries demo_env demo_zip ''../up.html'' (utf8_encode demo_env ''<html>'')))"
proof -
  have a: "html_input demo_env (paste_req ''<html>'') = Inr ''<html>''"
    by (simp add: html_input_paste)
  note target_path_unchecked [where e = demo_env and clk = demo_clock and rnd = "''k3x9qz''"
        and req = "paste_req ''<html>''" and p = "''../up.html''" and st = demo_server
        and s = "''<html>''" and c = demo_template and z = demo_zip, THEN conjunct2]
  with a isLikelyHtml_demo demo_server_template demo_readZip show ?thesis
    by blast
qed

subsection \<open>Which failures are recorded\<close>




subsection \<open>The labels of a request\<close>

lemma safe_hyphen: "safe_char CHR ''-''"
  by (simp add: safe_char_def)

lemma replace_unsafe_safe: "list_all safe_char (replace_unsafe s)"
  by (induction s) (simp_all add: replace_unsafe_def safe_hyphen)

lemma list_all_take: "list_all P xs \<Longrightarrow> list_all P (take n xs)"
  by (auto simp: list_all_iff dest: in_set_takeD)

lemma default_project_safe: "list_all safe_char ''rapz-app''"
  by (simp add: safe_char_def word_char_def)

lemma label_projectName_safe:
  "list_all safe_char (label_projectName req) \<and> length (label_projectName req) \<le> 50
   \<and> label_projectName req \<noteq> []"
proof -
  let ?t = "substring0 (replace_unsafe (js_or (body_projectName req) ''rapz-app'')) 50"
  have t: "list_all safe_char ?t" "length ?t \<le> 50"
    by (simp_all add: substring0_def list_all_take replace_unsafe_safe)
  have "label_projectName req = (if ?t = [] then ''rapz-app'' else ?t)"
    by (simp add: label_projectName_def js_or_def Let_def)
  with t default_project_safe show ?thesis by auto
qed

lemma label_username_bounded: "length (label_username req) \<le> 64"
  by (simp add: label_username_def substring0_def)

text \<open>
  C8, as stated, fails for the user name. A request with the user name
  \<^verbatim>\<open><script>\<close> succeeds and is recorded with that very name, which has characters
  outside the class \<^verbatim>\<open>[\w\-]\<close>.
\<close>

theorem username_not_sanitized:
  "body_username script_req = Some ''<script>''
   \<and> status (fst (create_apk demo_env demo_clock ''k3x9qz'' script_req demo_server)) = 200
   \<and> requests (DB (snd (create_apk demo_env demo_clock ''k3x9qz'' script_req demo_server)))
       = [Generated ''8_k3x9qz'' ''<script>'' ''rapz-app'' ''assets/www/index.html''
            ''rapz-app_7.apk'' 8]
   \<and> \<not> list_all safe_char ''<script>''"
proof -
  have a: "html_input demo_env script_req = Inr ''<html>''"
    by (simp add: html_input_def script_req_def paste_req_def)
  have r: "rewrite demo_env demo_template (target_replacePath script_req) (utf8_encode demo_env ''<html>'')
      = Inr (toBuffer demo_env (rewrite_entries demo_env demo_zip (target_replacePath script_req)
               (utf8_encode demo_env ''<html>'')))"
    by (rule rewrite_opened [OF demo_readZip])
  have n: "out_name script_req (at_name demo_clock) = ''rapz-app_7.apk''"
    by (rule out_name_default) (simp add: script_req_def paste_req_def)
  have l: "label_username script_req = ''<script>''" "label_projectName script_req = ''rapz-app''"
    "target_replacePath script_req = ''assets/www/index.html''"
    by (simp_all add: label_username_def label_projectName_def target_replacePath_def script_req_def
        paste_req_def js_or_def substring0_def replace_unsafe_def safe_char_def word_char_def)
  have "status (fst (create_apk demo_env demo_clock ''k3x9qz'' script_req demo_server)) = 200"
    by (simp add: create_apk_generated_response [OF a isLikelyHtml_demo demo_server_template r])
  moreover have "requests (DB (snd (create_apk demo_env demo_clock ''k3x9qz'' script_req demo_server)))
       = [Generated ''8_k3x9qz'' ''<script>'' ''rapz-app'' ''assets/www/index.html''
            ''rapz-app_7.apk'' 8]"
    unfolding create_apk_generated_DB [OF a isLikelyHtml_demo demo_server_template r] n l
    by (simp add: demo_server_def fresh_server_def decimal.simps digit_char_def demo_clock_def)
  moreover have "\<not> list_all safe_char ''<script>''"
    by (simp add: safe_char_def word_char_def)
  moreover have "body_username script_req = Some ''<script>''"
    by (simp add: script_req_def)
  ultimately show ?thesis by blast
qed

text \<open>
  C8, amended. The recorded user name is the first 64 characters of the name given
  (\<^verbatim>\<open>anon\<close> when none is given): bounded, not sanitized. The recorded project name
  has only characters of the class \<^verbatim>\<open>[\w\-]\<close>, at most 50 of them, and at least one.
  These are the labels in the record of every request answered with status 200.
\<close>

theorem labels_bounded:
  "label_username req = take 64 (js_or (body_username req) ''anon'')
   \<and> length (label_username req) \<le> 64
   \<and> list_all safe_char (label_projectName req)
   \<and> length (label_projectName req) \<le> 50
   \<and> label_projectName req \<noteq> []
   \<and> (status (fst (create_apk e clk rnd req st)) = 200
       \<longrightarrow> (\<exists>i p f. requests (DB (snd (create_apk e clk rnd req st)))
              = Generated i (label_username req) (label_projectName req) p f (at_created clk)
                # requests (DB st)))"
proof (intro conjI impI)
  show "label_username req = take 64 (js_or (body_username req) ''anon'')"
    by (simp add: label_username_def substring0_def)
  show "length (label_username req) \<le> 64" by (rule label_username_bounded)
  show "list_all safe_char (label_projectName req)" using label_projectName_safe by blast
  show "length (label_projectName req) \<le> 50" using label_projectName_safe by blast
  show "label_projectName req \<noteq> []" using label_projectName_safe by blast
  assume "status (fst (create_apk e clk rnd req st)) = 200"
  then obtain s c z where h: "html_input e req = Inr s" "isLikelyHtml s"
      "readFile (templates_dir st) ''current_template.apk'' = Some c" "readZip e c = Inr z"
    using create_apk_200D by blast
  from h(4) have r: "rewrite e c (target_replacePath req) (utf8_encode e s)
      = Inr (toBuffer e (rewrite_entries e z (target_replacePath req) (utf8_encode e s)))"
    by (rule rewrite_opened)
  show "\<exists>i p f. requests (DB (snd (create_apk e clk rnd req st)))
              = Generated i (label_username req) (label_projectName req) p f (at_created clk)
                # requests (DB st)"
    unfolding create_apk_generated_DB [OF h(1,2,3) r] by simp
qed

theorem labels_bounded_witness:
  "status (fst (create_apk demo_env demo_clock ''k3x9qz'' script_req demo_server)) = 200
   \<and> label_username script_req = ''<script>''
   \<and> (\<exists>i p f. requests (DB (snd (create_apk demo_env demo_clock ''k3x9qz'' script_req demo_server)))
        = Generated i ''<script>'' (label_projectName script_req) p f (at_created demo_clock)
          # requests (DB demo_server))"
proof -
  have a: "html_input demo_env script_req = Inr ''<html>''"
    by (simp add: html_input_def script_req_def paste_req_def)
  have s: "status (fst (create_apk demo_env demo_clock ''k3x9qz'' script_req demo_server)) = 200"
    using a isLikelyHtml_demo demo_server_template demo_readZip
    by (simp add: create_apk_response)
  have l: "label_username script_req = ''<script>''"
    by (simp add: label_username_def script_req_def paste_req_def js_or_def substring0_def)
  from labels_bounded [of script_req demo_env demo_clock "''k3x9qz''" demo_server] s
  have "\<exists>i p f. requests (DB (snd (create_apk demo_env demo_clock ''k3x9qz'' script_req demo_server)))
        = Generated i (label_username script_req) (label_projectName script_req) p f
            (at_created demo_clock) # requests (DB demo_server)"
    by blast
  then have "\<exists>i p f. requests (DB (snd (create_apk demo_env demo_clock ''k3x9qz'' script_req demo_server)))
        = Generated i ''<script>'' (label_projectName script_req) p f (at_created demo_clock)
          # requests (DB demo_server)"
    unfolding l .
  with s l show ?thesis by blast
qed

subsection \<open>Timers and generated files\<close>

lemma map_of_filter_names:
  "map_of (filter (\<lambda>(m, c). P m) d) n = (if P n then map_of d n else None)"
  by (induction d) auto

lemma expire_idem: "expire n (expire n s) = expire n s"
  by (simp add: expire_def unlink_ignore_idem)

lemma expire_absent: "serve_generated s n = None \<Longrightarrow> expire n s = s"
  by (simp add: expire_def serve_generated_def unlink_ignore_absent)

lemma generated_dir_fold_expire:
  "generated_dir (fold (\<lambda>(due, name) s. expire name s) ts s) =
     filter (\<lambda>(m, c). m \<notin> snd ` set ts) (generated_dir s)"
proof (induction ts arbitrary: s)
  case Nil
  then show ?case by simp
next
  case (Cons x ts)
  obtain due name where x: "x = (due, name)" by (cases x)
  have "generated_dir (fold (\<lambda>(due, name) s. expire name s) (x # ts) s)
      = generated_dir (fold (\<lambda>(due, name) s. expire name s) ts (expire name s))"
    by (simp add: x)
  also have "\<dots> = filter (\<lambda>(m, c). m \<notin> snd ` set ts) (generated_dir (expire name s))"
    by (rule Cons.IH)
  also have "generated_dir (expire name s) = unlink_ignore (generated_dir s) name"
    by (simp add: expire_def)
  also have "filter (\<lambda>(m, c). m \<notin> snd ` set ts) (unlink_ignore (generated_dir s) name)
      = filter (\<lambda>(m, c). m \<notin> snd ` set (x # ts)) (generated_dir s)"
    unfolding unlink_ignore_def x by (auto intro!: filter_cong)
  finally show ?case .
qed

lemma generated_dir_run_timers:
  "generated_dir (run_timers t s) =
     filter (\<lambda>(m, c). m \<notin> snd ` {x \<in> set (timers s). fst x \<le> t}) (generated_dir s)"
proof -
  have "set (filter (\<lambda>(due, name). due \<le> t) (timers s)) = {x \<in> set (timers s). fst x \<le> t}"
    by auto
  then show ?thesis by (simp add: run_timers_def generated_dir_fold_expire)
qed

lemma served_run_timers:
  "serve_generated (run_timers t s) n =
     (if n \<in> snd ` {x \<in> set (timers s). fst x \<le> t} then None else serve_generated s n)"
  unfolding serve_generated_def readFile_def generated_dir_run_timers
  by (simp add: map_of_filter_names)

lemma served_after_due:
  "(due, n) \<in> set (timers s) \<Longrightarrow> due \<le> t \<Longrightarrow> serve_generated (run_timers t s) n = None"
  unfolding served_run_timers by force

lemma timers_run_timers:
  "set (timers (run_timers t s)) = {x \<in> set (timers s). \<not> fst x \<le> t}"
  by (auto simp: run_timers_def)

lemma timeout_delay_le: "0 < cs \<Longrightarrow> timeout_delay (cs * 1000) \<le> nat (cs * 1000)"
  unfolding timeout_delay_def by (auto simp: le_nat_iff)

lemma timeout_delay_pos: "0 < timeout_delay ms"
  by (simp add: timeout_delay_def)

lemma digit_char_value: "d < 10 \<Longrightarrow> of_char (digit_char d) = 48 + d"
proof -
  assume "d < 10"
  then have "d \<in> {0, 1, 2, 3, 4, 5, 6, 7, 8, 9}" by auto
  then show ?thesis by (auto simp: digit_char_def)
qed

lemma digit_char_not_underscore: "d < 10 \<Longrightarrow> digit_char d \<noteq> CHR ''_''"
  using digit_char_value [of d] by auto

lemma decimal_no_underscore: "CHR ''_'' \<notin> set (decimal n)"
proof (induction n rule: decimal.induct)
  case (1 n)
  show ?case
  proof (cases "n < 10")
    case True
    then show ?thesis using digit_char_not_underscore [of n] by (simp add: decimal.simps [of n])
  next
    case False
    have "n mod 10 < 10" by simp
    then have "digit_char (n mod 10) \<noteq> CHR ''_''" by (rule digit_char_not_underscore)
    with False 1 show ?thesis by (simp add: decimal.simps [of n])
  qed
qed

lemma decimal_value:
  "foldl (\<lambda>a c. 10 * a + (of_char c - 48)) (0::nat) (decimal n) = n"
proof (induction n rule: decimal.induct)
  case (1 n)
  show ?case
  proof (cases "n < 10")
    case True
    then show ?thesis by (simp add: decimal.simps [of n] digit_char_value)
  next
    case False
    have "n mod 10 < 10" by simp
    then have "of_char (digit_char (n mod 10)) = 48 + n mod 10" by (rule digit_char_value)
    with False 1 show ?thesis by (simp add: decimal.simps [of n])
  qed
qed

lemma decimal_inj:
  assumes "decimal m = decimal n"
  shows "m = n"
proof -
  have "m = foldl (\<lambda>a c. 10 * a + (of_char c - 48)) (0::nat) (decimal m)"
    by (simp only: decimal_value)
  also have "\<dots> = foldl (\<lambda>a c. 10 * a + (of_char c - 48)) (0::nat) (decimal n)"
    by (simp only: assms)
  also have "\<dots> = n" by (rule decimal_value)
  finally show ?thesis .
qed

lemma first_separator:
  "x \<notin> set p \<Longrightarrow> x \<notin> set q \<Longrightarrow> p @ x # r = q @ x # r' \<Longrightarrow> p = q"
proof (induction p arbitrary: q)
  case Nil
  show ?case
  proof (cases q)
    case (Cons b q')
    with Nil(3) have "x = b" by simp
    with Nil(2) Cons show ?thesis by simp
  qed simp
next
  case (Cons a p)
  show ?case
  proof (cases q)
    case Nil
    with Cons.prems(3) have "a = x" by simp
    with Cons.prems(1) show ?thesis by simp
  next
    case (Cons b q')
    with Cons.prems have "a = b" "p @ x # r = q' @ x # r'" "x \<notin> set p" "x \<notin> set q'"
      by simp_all
    with Cons.IH [of q'] \<open>q = b # q'\<close> show ?thesis by simp
  qed
qed

lemma last_separator:
  assumes "a @ x # b = a' @ x # b'" and "x \<notin> set b" and "x \<notin> set b'"
  shows "b = b'"
proof -
  from assms(1) have "rev (a @ x # b) = rev (a' @ x # b')" by simp
  then have "rev b @ x # rev a = rev b' @ x # rev a'" by simp
  moreover have "x \<notin> set (rev b)" "x \<notin> set (rev b')" using assms(2,3) by simp_all
  ultimately have "rev b = rev b'" by (rule first_separator [rotated 2])
  then show ?thesis by simp
qed

lemma out_name_inj: "out_name r1 n1 = out_name r2 n2 \<Longrightarrow> n1 = n2"
proof -
  assume "out_name r1 n1 = out_name r2 n2"
  then have "(label_projectName r1 @ CHR ''_'' # decimal n1) @ ''.apk''
      = (label_projectName r2 @ CHR ''_'' # decimal n2) @ ''.apk''"
    unfolding out_name_def by simp
  then have "label_projectName r1 @ CHR ''_'' # decimal n1
      = label_projectName r2 @ CHR ''_'' # decimal n2"
    by (rule append_same_eq [THEN iffD1])
  then have "decimal n1 = decimal n2"
    by (rule last_separator [OF _ decimal_no_underscore decimal_no_underscore])
  then show ?thesis by (rule decimal_inj)
qed

lemma create_apk_cases:
  obtains (unchanged) "snd (create_apk e clk rnd req st) = st"
  | (thrown) err where "snd (create_apk e clk rnd req st) =
       saveDB (st\<lparr>DB := (DB st)\<lparr>stats_fail := stats_fail (DB st) + 1,
                                requests := Failed (at_catch clk) err # requests (DB st)\<rparr>\<rparr>)"
  | (generated) s c bytes where "html_input e req = Inr s" "isLikelyHtml s"
      "readFile (templates_dir st) ''current_template.apk'' = Some c"
      "rewrite e c (target_replacePath req) (utf8_encode e s) = Inr bytes"
proof (cases "html_input e req")
  case (Inl r)
  then have "snd (create_apk e clk rnd req st) = st" by (simp add: create_apk_no_input)
  then show ?thesis by (rule unchanged)
next
  case (Inr s)
  show ?thesis
  proof (cases "isLikelyHtml s")
    case False
    with Inr have "snd (create_apk e clk rnd req st) = st" by (simp add: create_apk_not_html)
    then show ?thesis by (rule unchanged)
  next
    case True
    show ?thesis
    proof (cases "readFile (templates_dir st) ''current_template.apk''")
      case None
      with Inr True have "snd (create_apk e clk rnd req st) = st"
        by (simp add: create_apk_no_template)
      then show ?thesis by (rule unchanged)
    next
      case (Some c)
      show ?thesis
      proof (cases "rewrite e c (target_replacePath req) (utf8_encode e s)")
        case (Inl err)
        from create_apk_thrown [OF Inr True Some Inl, of clk rnd]
        have "snd (create_apk e clk rnd req st) =
          saveDB (st\<lparr>DB := (DB st)\<lparr>stats_fail := stats_fail (DB st) + 1,
                                requests := Failed (at_catch clk) err # requests (DB st)\<rparr>\<rparr>)"
          by (simp add: catch_block_def)
        then show ?thesis by (rule thrown)
      next
        case (Inr bytes)
        with \<open>html_input e req = Inr s\<close> True Some show ?thesis by (rule generated)
      qed
    qed
  qed
qed

text \<open>Either the timer of the file is pending, or the file is gone and the clock has
  passed the time in its name.\<close>

lemma pending_or_gone:
  assumes "(due, out_name req T) \<in> set (timers s)
      \<or> (serve_generated s (out_name req T) = None \<and> T < t0)"
    and "T < due" and "in_order t0 evs"
  shows "(due, out_name req T) \<in> set (timers (run e evs s))
      \<or> serve_generated (run e evs s) (out_name req T) = None"
  using assms(1,3)
proof (induction evs arbitrary: s t0)
  case Nil
  then show ?case by (auto simp: run_def)
next
  case (Cons ev evs)
  let ?N = "out_name req T"
  have r: "run e (ev # evs) s = run e evs (step e s ev)" by (simp add: run_def)
  show ?case
  proof (cases ev)
    case (Upload now areq)
    have "generated_dir (step e s ev) = generated_dir s" "timers (step e s ev) = timers s"
      by (simp_all add: Upload upload_template_def Let_def split: option.splits)
    with Cons.prems(1) have "(due, ?N) \<in> set (timers (step e s ev))
        \<or> (serve_generated (step e s ev) ?N = None \<and> T < now)"
      using Cons.prems(2) Upload by (auto simp: serve_generated_def)
    moreover have "in_order now evs" using Cons.prems(2) Upload by simp
    ultimately show ?thesis unfolding r by (rule Cons.IH)
  next
    case (Create clk' rnd' req')
    have o: "t0 \<le> at_name clk'" "at_name clk' \<le> at_timer clk'" "in_order (at_timer clk') evs"
      using Cons.prems(2) Create by simp_all
    have "(due, ?N) \<in> set (timers (step e s ev))
        \<or> (serve_generated (step e s ev) ?N = None \<and> T < at_timer clk')"
    proof (cases rule: create_apk_cases [of e clk' rnd' req' s])
      case unchanged
      with Cons.prems(1) o Create show ?thesis by auto
    next
      case (thrown err)
      with Cons.prems(1) o Create show ?thesis by (auto simp: saveDB_def serve_generated_def)
    next
      case (generated h c bytes)
      note g = create_apk_generated_dir [OF generated, of clk' rnd']
        and t = create_apk_generated_timers [OF generated, of clk' rnd']
      from Cons.prems(1) show ?thesis
      proof
        assume "(due, ?N) \<in> set (timers s)"
        with t Create show ?thesis by simp
      next
        assume a: "serve_generated s ?N = None \<and> T < t0"
        with o have "T \<noteq> at_name clk'" by simp
        then have "out_name req' (at_name clk') \<noteq> ?N" using out_name_inj by blast
        then have "serve_generated (snd (create_apk e clk' rnd' req' s)) ?N = serve_generated s ?N"
          by (auto simp: serve_generated_def g readFile_writeFileSync)
        with a o Create show ?thesis by simp
      qed
    qed
    then show ?thesis unfolding r using o(3) by (rule Cons.IH)
  next
    case (Clock t)
    have o: "t0 \<le> t" "in_order t evs" using Cons.prems(2) Clock by simp_all
    have "(due, ?N) \<in> set (timers (step e s ev))
        \<or> (serve_generated (step e s ev) ?N = None \<and> T < t)"
      using Cons.prems(1)
    proof
      assume p: "(due, ?N) \<in> set (timers s)"
      show ?thesis
      proof (cases "due \<le> t")
        case True
        with p have "serve_generated (run_timers t s) ?N = None" by (rule served_after_due)
        with True assms(2) Clock show ?thesis by simp
      next
        case False
        with p have "(due, ?N) \<in> set (timers (run_timers t s))" by (simp add: timers_run_timers)
        with Clock show ?thesis by simp
      qed
    next
      assume "serve_generated s ?N = None \<and> T < t0"
      with o Clock show ?thesis by (simp add: served_run_timers)
    qed
    then show ?thesis unfolding r using o(2) by (rule Cons.IH)
  qed
qed

lemma gone_after_due:
  assumes "(due, n) \<in> set (timers st) \<or> serve_generated st n = None" and "due \<le> t"
  shows "serve_generated (run_timers t st) n = None"
  using assms served_after_due [of due n st t] by (auto simp: served_run_timers)

text \<open>
  C4. After a request answered with status 200, the file named in the download link is
  served with exactly the bytes written for it. The retention window (a positive
  \<^verbatim>\<open>CLEANUP_SECONDS\<close>) runs from the start of the timer, which the handler sets last,
  after the file is written. Once the clock has reached the start of the timer plus the
  window and the timers due have run, the file is no longer served, whatever uploads,
  requests and ticks of the clock came in between, in the order of time. The removal is
  idempotent: removing twice is removing once, and removing a file that is not there
  changes nothing.
\<close>

theorem artifact_served_until_expiry:
  assumes "create_apk e clk rnd req st = (resp, st')" and "status resp = 200"
  shows "(\<exists>s c bytes. html_input e req = Inr s
            \<and> readFile (templates_dir st) ''current_template.apk'' = Some c
            \<and> rewrite e c (target_replacePath req) (utf8_encode e s) = Inr bytes
            \<and> serve_generated st' (out_name req (at_name clk)) = Some bytes)
         \<and> resp = Json 200 True (Some ''APK generated'')
                    (DownloadUrl (''/generated/'' @ out_name req (at_name clk)))
         \<and> (0 < CLEANUP_SECONDS e \<and> at_name clk \<le> at_timer clk \<and> in_order (at_timer clk) evs
              \<and> at_timer clk + nat (CLEANUP_SECONDS e * 1000) \<le> t
              \<longrightarrow> serve_generated (run_timers t (run e evs st')) (out_name req (at_name clk)) = None)
         \<and> expire (out_name req (at_name clk)) (expire (out_name req (at_name clk)) s2)
             = expire (out_name req (at_name clk)) s2
         \<and> (serve_generated s2 (out_name req (at_name clk)) = None
              \<longrightarrow> expire (out_name req (at_name clk)) s2 = s2)"
proof -
  let ?N = "out_name req (at_name clk)"
  let ?due = "at_timer clk + timeout_delay (CLEANUP_SECONDS e * 1000)"
  from assms have "status (fst (create_apk e clk rnd req st)) = 200" by simp
  then obtain s c z where h: "html_input e req = Inr s" "isLikelyHtml s"
      "readFile (templates_dir st) ''current_template.apk'' = Some c" "readZip e c = Inr z"
    using create_apk_200D by blast
  let ?bytes = "toBuffer e (rewrite_entries e z (target_replacePath req) (utf8_encode e s))"
  from h(4) have r: "rewrite e c (target_replacePath req) (utf8_encode e s) = Inr ?bytes"
    by (rule rewrite_opened)
  have st': "st' = snd (create_apk e clk rnd req st)"
    and resp: "resp = fst (create_apk e clk rnd req st)"
    using assms(1) by simp_all
  have a: "serve_generated st' ?N = Some ?bytes"
    unfolding st' by (rule create_apk_generated_served [OF h(1,2,3) r])
  have b: "resp = Json 200 True (Some ''APK generated'') (DownloadUrl (''/generated/'' @ ?N))"
    unfolding resp by (rule create_apk_generated_response [OF h(1,2,3) r])
  have tm: "(?due, ?N) \<in> set (timers st')"
    unfolding st' by (simp add: create_apk_generated_timers [OF h(1,2,3) r])
  have c: "serve_generated (run_timers t (run e evs st')) ?N = None"
    if w: "0 < CLEANUP_SECONDS e" "at_name clk \<le> at_timer clk" "in_order (at_timer clk) evs"
      "at_timer clk + nat (CLEANUP_SECONDS e * 1000) \<le> t"
  proof -
    from w(1,4) timeout_delay_le [of "CLEANUP_SECONDS e"]
    have d: "?due \<le> t" by linarith
    have l: "at_name clk < ?due"
      using w(2) timeout_delay_pos [of "CLEANUP_SECONDS e * 1000"] by linarith
    from tm have "(?due, ?N) \<in> set (timers st')
        \<or> (serve_generated st' ?N = None \<and> at_name clk < at_timer clk)"
      by simp
    then have "(?due, ?N) \<in> set (timers (run e evs st'))
        \<or> serve_generated (run e evs st') ?N = None"
      using l w(3) by (rule pending_or_gone)
    then show ?thesis using d by (rule gone_after_due)
  qed
  from a h(1,3) r have "\<exists>s c bytes. html_input e req = Inr s
            \<and> readFile (templates_dir st) ''current_template.apk'' = Some c
            \<and> rewrite e c (target_replacePath req) (utf8_encode e s) = Inr bytes
            \<and> serve_generated st' ?N = Some bytes"
    by blast
  with b c expire_idem expire_absent show ?thesis by simp
qed

theorem artifact_served_until_expiry_witness:
  "create_apk demo_env demo_clock ''k3x9qz'' (paste_req ''<html>'') demo_server
     = (Json 200 True (Some ''APK generated'') (DownloadUrl ''/generated/rapz-app_7.apk''),
        snd (create_apk demo_env demo_clock ''k3x9qz'' (paste_req ''<html>'') demo_server))
   \<and> serve_generated (snd (create_apk demo_env demo_clock ''k3x9qz'' (paste_req ''<html>'') demo_server))
        ''rapz-app_7.apk''
       = Some (toBuffer demo_env [(''assets/www/index.html'', [60, 104, 116, 109, 108, 62]),
                                   (''classes.dex'', [1, 2, 3])])
   \<and> 0 < CLEANUP_SECONDS demo_env \<and> at_name demo_clock \<le> at_timer demo_clock
   \<and> in_order (at_timer demo_clock) later_events
   \<and> at_timer demo_clock + nat (CLEANUP_SECONDS demo_env * 1000) \<le> 3600009
   \<and> serve_generated (run_timers 3600009 (run demo_env later_events
        (snd (create_apk demo_env demo_clock ''k3x9qz'' (paste_req ''<html>'') demo_server))))
        ''rapz-app_7.apk'' = None"
proof -
  let ?x = "create_apk demo_env demo_clock ''k3x9qz'' (paste_req ''<html>'') demo_server"
  let ?b = "toBuffer demo_env [(''assets/www/index.html'', [60, 104, 116, 109, 108, 62]),
                                   (''classes.dex'', [1, 2, 3])]"
  have a: "html_input demo_env (paste_req ''<html>'') = Inr ''<html>''"
    by (simp add: html_input_paste)
  have n: "out_name (paste_req ''<html>'') (at_name demo_clock) = ''rapz-app_7.apk''"
    by (rule out_name_default) (simp add: paste_req_def)
  have p: "target_replacePath (paste_req ''<html>'') = ''assets/www/index.html''"
    by (simp add: target_replacePath_def paste_req_def js_or_def)
  have w: "rewrite_entries demo_env demo_zip ''assets/www/index.html'' [60, 104, 116, 109, 108, 62]
      = [(''assets/www/index.html'', [60, 104, 116, 109, 108, 62]), (''classes.dex'', [1, 2, 3])]"
    by (simp add: demo_env_def rewrite_entries_def getEntry_def updateFile_def demo_zip_def
        clean_path_def)
  have r: "rewrite demo_env demo_template (target_replacePath (paste_req ''<html>''))
      (utf8_encode demo_env ''<html>'') = Inr ?b"
    unfolding p rewrite_opened [OF demo_readZip] demo_html_bytes w by (rule refl)
  have f: "fst ?x = Json 200 True (Some ''APK generated'') (DownloadUrl ''/generated/rapz-app_7.apk'')"
    using create_apk_generated_response [OF a isLikelyHtml_demo demo_server_template r,
        of demo_clock "''k3x9qz''"]
    by (simp add: n)
  then have x: "?x = (Json 200 True (Some ''APK generated'') (DownloadUrl ''/generated/rapz-app_7.apk''),
      snd ?x)"
    by (metis prod.collapse)
  have s: "status (Json 200 True (Some ''APK generated'') (DownloadUrl ''/generated/rapz-app_7.apk'')) = 200"
    by simp
  have c: "0 < CLEANUP_SECONDS demo_env" "at_name demo_clock \<le> at_timer demo_clock"
    "in_order (at_timer demo_clock) later_events"
    "at_timer demo_clock + nat (CLEANUP_SECONDS demo_env * 1000) \<le> 3600009"
    by (simp_all add: demo_env_def demo_clock_def later_events_def)
  have v: "serve_generated (snd ?x) ''rapz-app_7.apk'' = Some ?b"
    using create_apk_generated_served [OF a isLikelyHtml_demo demo_server_template r,
        of demo_clock "''k3x9qz''"]
    by (simp add: n)
  from artifact_served_until_expiry [OF x s, of later_events 3600009] c
  have "serve_generated (run_timers 3600009 (run demo_env later_events (snd ?x))) ''rapz-app_7.apk'' = None"
    unfolding n by blast
  with x v c show ?thesis by blast
qed

subsection \<open>The list of templates\<close>

lemma endsWith_append: "endsWith (a @ m) m"
  by (simp add: endsWith_def startsWith_iff)

lemma set_insert_name: "set (insert_name n ms) = insert n (set ms)"
  by (induction ms) auto

lemma set_sort_names: "set (sort_names ns) = set ns"
  unfolding sort_names_def by (induction ns) (simp_all add: set_insert_name)

text \<open>
  C7, as stated, fails. After two uploads, at times 5 and 6, on a platform that lists a
  directory in the order of the names, the list is \<^verbatim>\<open>current_template.apk\<close>,
  \<^verbatim>\<open>template_5.apk\<close>, \<^verbatim>\<open>template_6.apk\<close>: it holds the alias besides the two
  templates, and it is not the templates in the reverse of their order of insertion.
\<close>

theorem listing_not_reversed:
  "fst (upload_template demo_env 5 (demo_admin demo_template) fresh_server)
     = Json 200 True (Some ''template uploaded'') (Filename ''template_5.apk'')
   \<and> fst (upload_template demo_env 6 (demo_admin demo_template)
          (snd (upload_template demo_env 5 (demo_admin demo_template) fresh_server)))
     = Json 200 True (Some ''template uploaded'') (Filename ''template_6.apk'')
   \<and> list_templates demo_env (demo_admin demo_template)
        (snd (upload_template demo_env 6 (demo_admin demo_template)
          (snd (upload_template demo_env 5 (demo_admin demo_template) fresh_server))))
     = Json 200 True None (Templates [''current_template.apk'', ''template_5.apk'', ''template_6.apk''])
   \<and> list_templates demo_env (demo_admin demo_template)
        (snd (upload_template demo_env 6 (demo_admin demo_template)
          (snd (upload_template demo_env 5 (demo_admin demo_template) fresh_server))))
     \<noteq> Json 200 True None (Templates (rev [''template_5.apk'', ''template_6.apk'']))"
  by (simp add: upload_template_def list_templates_def admin_pass_def demo_admin_def demo_env_def
      fresh_server_def js_or_def decimal.simps digit_char_def readdirSync_def endsWith_def Let_def
      sort_names_def)

text \<open>
  C7, amended. The list is what the listing of the directory of templates gives, in the
  order in which it gives it, less the names that do not end in \<^verbatim>\<open>.apk\<close>: the handler
  neither sorts nor reverses. When the listing gives exactly the names of the files, the
  list holds the names ending in \<^verbatim>\<open>.apk\<close> of the directory, and after an upload these
  and the name of the new template and the alias \<^verbatim>\<open>current_template.apk\<close>.
\<close>

theorem listing_follows_directory:
  assumes "admin_pass req = ADMIN_PASS e" and "template_file req = Some buf"
    and "\<And>ns. set (listing e ns) = set ns"
  shows "list_templates e req st
           = Json 200 True None
               (Templates (filter (\<lambda>f. endsWith f ''.apk'') (readdirSync e (templates_dir st))))
       \<and> set (filter (\<lambda>f. endsWith f ''.apk'') (readdirSync e (templates_dir st)))
           = {f \<in> fst ` set (templates_dir st). endsWith f ''.apk''}
       \<and> fst (upload_template e now req st)
           = Json 200 True (Some ''template uploaded'')
               (Filename (''template_'' @ decimal now @ ''.apk''))
       \<and> set (filter (\<lambda>f. endsWith f ''.apk'')
               (readdirSync e (templates_dir (snd (upload_template e now req st)))))
           = {f \<in> fst ` set (templates_dir st). endsWith f ''.apk''}
             \<union> {''template_'' @ decimal now @ ''.apk'', ''current_template.apk''}"
proof -
  let ?name = "''template_'' @ decimal now @ ''.apk''"
  let ?d = "templates_dir st"
  have l: "set (readdirSync e d) = fst ` set d" for d
    by (simp add: readdirSync_def assms(3))
  have up: "upload_template e now req st =
      (Json 200 True (Some ''template uploaded'') (Filename ?name),
       st\<lparr>templates_dir := writeFileSync (writeFileSync ?d ?name buf) ''current_template.apk'' buf\<rparr>)"
    using assms(1,2) by (simp add: upload_template_def Let_def)
  have n1: "endsWith ?name ''.apk''"
    using endsWith_append [of "''template_'' @ decimal now" "''.apk''"] by simp
  have n2: "endsWith ''current_template.apk'' ''.apk''"
    using endsWith_append [of "''current_template''" "''.apk''"] by simp
  have "list_templates e req st
           = Json 200 True None
               (Templates (filter (\<lambda>f. endsWith f ''.apk'') (readdirSync e ?d)))"
    using assms(1) by (simp add: list_templates_def)
  moreover have "set (filter (\<lambda>f. endsWith f ''.apk'') (readdirSync e ?d))
           = {f \<in> fst ` set ?d. endsWith f ''.apk''}"
    by (simp add: l)
  moreover have "fst (upload_template e now req st)
           = Json 200 True (Some ''template uploaded'') (Filename ?name)"
    by (simp add: up)
  moreover have "set (filter (\<lambda>f. endsWith f ''.apk'')
               (readdirSync e (templates_dir (snd (upload_template e now req st)))))
           = {f \<in> fst ` set ?d. endsWith f ''.apk''} \<union> {?name, ''current_template.apk''}"
    unfolding up using n1 n2 by (auto simp: l names_writeFileSync)
  ultimately show ?thesis by blast
qed

theorem listing_follows_directory_witness:
  "admin_pass (demo_admin demo_template) = ADMIN_PASS demo_env
   \<and> template_file (demo_admin demo_template) = Some demo_template
   \<and> list_templates demo_env (demo_admin demo_template) demo_server
       = Json 200 True None (Templates [''current_template.apk'', ''template_5.apk''])
   \<and> set (filter (\<lambda>f. endsWith f ''.apk'')
        (readdirSync demo_env (templates_dir
          (snd (upload_template demo_env 6 (demo_admin demo_template) demo_server)))))
       = {''template_5.apk'', ''template_6.apk'', ''current_template.apk''}"
proof -
  have a: "admin_pass (demo_admin demo_template) = ADMIN_PASS demo_env"
    by (simp add: admin_pass_def demo_admin_def demo_env_def js_or_def)
  have b: "template_file (demo_admin demo_template) = Some demo_template"
    by (simp add: demo_admin_def)
  have p: "set (listing demo_env ns) = set ns" for ns
    by (simp add: demo_env_def set_sort_names)
  note t = listing_follows_directory [OF a b p, of demo_server 6]
  have d: "filter (\<lambda>f. endsWith f ''.apk'') (readdirSync demo_env (templates_dir demo_server))
      = [''current_template.apk'', ''template_5.apk'']"
    by (simp add: demo_server_def fresh_server_def readdirSync_def demo_env_def sort_names_def
        endsWith_def)
  from t have c: "list_templates demo_env (demo_admin demo_template) demo_server
       = Json 200 True None (Templates [''current_template.apk'', ''template_5.apk''])"
    unfolding d by blast
  have "{f \<in> fst ` set (templates_dir demo_server). endsWith f ''.apk''}
      = {''template_5.apk'', ''current_template.apk''}"
    by (auto simp: demo_server_def fresh_server_def endsWith_def)
  with t have "set (filter (\<lambda>f. endsWith f ''.apk'')
        (readdirSync demo_env (templates_dir
          (snd (upload_template demo_env 6 (demo_admin demo_template) demo_server)))))
       = {''template_5.apk'', ''template_6.apk'', ''current_template.apk''}"
    by (auto simp: decimal.simps digit_char_def)
  with a b c show ?thesis by blast
qed

end
